theory Spec2Isabelle
  imports Complex_Main
begin

section \<open>Python strings and numbers\<close>

text \<open>
  Texts are modelled as \<^typ>\<open>string\<close>, read as ASCII code points: case folding,
  word characters and white space are those of Python on ASCII input.  Python floats are
  modelled as \<^typ>\<open>real\<close>, that is with exact arithmetic.
\<close>

definition is_upper :: "char \<Rightarrow> bool" where
  "is_upper c = (let n = (of_char c :: nat) in 65 \<le> n \<and> n \<le> 90)"

definition is_lower :: "char \<Rightarrow> bool" where
  "is_lower c = (let n = (of_char c :: nat) in 97 \<le> n \<and> n \<le> 122)"

definition is_digit :: "char \<Rightarrow> bool" where
  "is_digit c = (let n = (of_char c :: nat) in 48 \<le> n \<and> n \<le> 57)"

text \<open>\<open>str.lower()\<close> on one character.\<close>

definition lower_char :: "char \<Rightarrow> char" where
  "lower_char c = (if is_upper c then char_of ((of_char c :: nat) + 32) else c)"

definition lower :: "string \<Rightarrow> string" where
  "lower s = map lower_char s"

text \<open>The class \<open>\w\<close> of the \<open>re\<close> module: letters, digits and the underscore.\<close>

definition is_word_char :: "char \<Rightarrow> bool" where
  "is_word_char c = (is_upper c \<or> is_lower c \<or> is_digit c \<or> c = CHR ''_'')"

text \<open>The character at a position, \<open>None\<close> outside the text.\<close>

definition char_at :: "string \<Rightarrow> int \<Rightarrow> char option" where
  "char_at t p = (if 0 \<le> p \<and> p < int (length t) then Some (t ! nat p) else None)"

definition word_at :: "string \<Rightarrow> int \<Rightarrow> bool" where
  "word_at t p = (case char_at t p of None \<Rightarrow> False | Some c \<Rightarrow> is_word_char c)"

text \<open>
  \<open>\b\<close> holds at position \<open>p\<close> when exactly one of the characters before and at \<open>p\<close>
  is a word character; outside the text counts as a non-word character.
\<close>

definition word_boundary :: "string \<Rightarrow> nat \<Rightarrow> bool" where
  "word_boundary t p = (word_at t (int p - 1) \<noteq> word_at t (int p))"

text \<open>The pattern \<open>\b\<close> keyword \<open>\b\<close> (a literal keyword) matches at position \<open>p\<close>.\<close>

definition match_at :: "string \<Rightarrow> string \<Rightarrow> nat \<Rightarrow> bool" where
  "match_at keyword t p =
     (word_boundary t p \<and> take (length keyword) (drop p t) = keyword
      \<and> word_boundary t (p + length keyword))"

text \<open>\<open>re.search(r'\b' + keyword + r'\b', t)\<close> finds a match.\<close>

definition re_search :: "string \<Rightarrow> string \<Rightarrow> bool" where
  "re_search keyword t = list_ex (match_at keyword t) [0 ..< Suc (length t)]"

text \<open>
  The number of whole-word occurrences of a keyword in a text: the positions where the
  pattern matches.  This is the count the specification speaks of; the source does not
  compute it.
\<close>

definition occurrences :: "string \<Rightarrow> string \<Rightarrow> nat" where
  "occurrences keyword t = length (filter (match_at keyword t) [0 ..< Suc (length t)])"

text \<open>The count the specification describes: every occurrence of every term.\<close>

definition occurrence_sum :: "string list \<Rightarrow> string \<Rightarrow> nat" where
  "occurrence_sum kws t = sum_list (map (\<lambda>keyword. occurrences keyword t) kws)"

text \<open>Decimal rendering of integers, as \<open>str\<close> does.  CPython refuses to render an
  integer of more than 4300 digits (\<open>ValueError\<close>); the model covers the integers
  below that size.\<close>

definition digit_char :: "nat \<Rightarrow> char" where
  "digit_char d = char_of (48 + d)"

fun str_nat :: "nat \<Rightarrow> string" where
  "str_nat n = (if n < 10 then [digit_char n] else str_nat (n div 10) @ [digit_char (n mod 10)])"

declare str_nat.simps [simp del]

definition str_int :: "int \<Rightarrow> string" where
  "str_int i = (if i < 0 then CHR ''-'' # str_nat (nat (- i)) else str_nat (nat i))"

section \<open>Sentiment scorer\<close>

record SentimentAnalysisResponse =
  sentiment :: string
  score :: real
  explanation :: string

definition positive_keywords :: "string list" where
  "positive_keywords =
    [''bullish'', ''uptrend'', ''growth'', ''profit'', ''gain'', ''outperform'',
     ''buy'', ''strong'', ''positive'', ''up'', ''rise'', ''rising'', ''rally'',
     ''opportunity'', ''optimistic'', ''confident'', ''exceed'', ''beat'',
     ''momentum'', ''recovery'', ''upgrade'', ''success'', ''improve'']"

definition negative_keywords :: "string list" where
  "negative_keywords =
    [''bearish'', ''downtrend'', ''decline'', ''loss'', ''risk'', ''underperform'',
     ''sell'', ''weak'', ''negative'', ''down'', ''fall'', ''falling'', ''drop'',
     ''threat'', ''pessimistic'', ''concerned'', ''miss'', ''below'',
     ''slowdown'', ''recession'', ''downgrade'', ''failure'', ''worsen'']"

text \<open>\<open>sum(1 for keyword in kws if re.search(...))\<close>\<close>

definition keyword_count :: "string list \<Rightarrow> string \<Rightarrow> nat" where
  "keyword_count kws text_lower =
     sum_list (map (\<lambda>keyword. 1) (filter (\<lambda>keyword. re_search keyword text_lower) kws))"

definition positive_count :: "string \<Rightarrow> nat" where
  "positive_count txt = keyword_count positive_keywords (lower txt)"

definition negative_count :: "string \<Rightarrow> nat" where
  "negative_count txt = keyword_count negative_keywords (lower txt)"

definition analyze_sentiment :: "string \<Rightarrow> SentimentAnalysisResponse" where
  "analyze_sentiment txt =
    (let pc = positive_count txt;
         nc = negative_count txt;
         total_count = pc + nc
     in if total_count = 0
        then \<lparr> sentiment = ''neutral'', score = 0,
               explanation = ''No clear sentiment indicators found in the text.'' \<rparr>
        else
          let sentiment_score = (real pc - real nc) / real total_count
          in if sentiment_score > 0.25
             then \<lparr> sentiment = ''positive'', score = sentiment_score,
                    explanation = ''The text contains more positive financial indicators (''
                      @ str_nat pc @ '') than negative ones ('' @ str_nat nc @ '').'' \<rparr>
             else if sentiment_score < - 0.25
             then \<lparr> sentiment = ''negative'', score = sentiment_score,
                    explanation = ''The text contains more negative financial indicators (''
                      @ str_nat nc @ '') than positive ones ('' @ str_nat pc @ '').'' \<rparr>
             else \<lparr> sentiment = ''neutral'', score = sentiment_score,
                    explanation = ''The text contains a balanced mix of positive (''
                      @ str_nat pc @ '') and negative ('' @ str_nat nc
                      @ '') financial indicators.'' \<rparr>)"

section \<open>Anomaly detector\<close>

record AnomalyDetectionResponse =
  anomalies :: "nat list"
  scores :: "real list"
  threshold :: real

text \<open>A slice bound of Python: a negative bound counts from the end, and every bound is
  clamped to the list.\<close>

definition slice_index :: "int \<Rightarrow> nat \<Rightarrow> nat" where
  "slice_index k n = (if k < 0 then nat (max 0 (k + int n)) else min (nat k) n)"

text \<open>\<open>xs[a:b]\<close>\<close>

definition py_slice :: "'a list \<Rightarrow> int \<Rightarrow> int \<Rightarrow> 'a list" where
  "py_slice xs a b =
     (let s = slice_index a (length xs); e = slice_index b (length xs)
      in take (e - s) (drop s xs))"

text \<open>
  A float is modelled by the real number it denotes; the model covers runs in which
  every float is finite.  Comparisons and \<open>abs\<close> are exact on floats.  The operations
  that round are arguments of the model: \<open>np.mean\<close> and \<open>np.std\<close> of numpy, which are
  not part of the repository, and the subtraction and the division of floats.  What is
  proved of the detector holds whatever these four operations compute, and so for the
  results of float arithmetic.
\<close>

record float_arith =
  np_mean :: "real list \<Rightarrow> real"
  np_std :: "real list \<Rightarrow> real"
  float_sub :: "real \<Rightarrow> real \<Rightarrow> real"
  float_div :: "real \<Rightarrow> real \<Rightarrow> real"

text \<open>
  The loop \<open>for i in range(len(data_array))\<close>, with the lists \<open>scores\<close> and
  \<open>anomalies\<close> as state.  An empty window (only possible with a window size that is not
  positive) makes numpy compute \<open>nan\<close>, which has no counterpart in \<^typ>\<open>real\<close>: the
  model then returns \<open>None\<close>.
\<close>

fun detect_loop ::
  "float_arith \<Rightarrow> real list \<Rightarrow> int \<Rightarrow> nat list \<Rightarrow> real list \<times> nat list
     \<Rightarrow> (real list \<times> nat list) option"
where
  "detect_loop fl data_array window_size [] (scs, ans) = Some (scs, ans)"
| "detect_loop fl data_array window_size (i # rest) (scs, ans) =
     (if int i < window_size then detect_loop fl data_array window_size rest (scs @ [0], ans)
      else
        let window = py_slice data_array (int i - window_size) (int i) in
        if window = [] then None
        else
          let window_mean = np_mean fl window;
              window_std = np_std fl window
          in if window_std = 0
             then detect_loop fl data_array window_size rest (scs @ [0], ans)
             else
               let z_score =
                     \<bar>float_div fl (float_sub fl (data_array ! i) window_mean) window_std\<bar>
               in detect_loop fl data_array window_size rest
                    (scs @ [z_score], if z_score > 3 then ans @ [i] else ans))"

definition detect_anomalies ::
  "float_arith \<Rightarrow> real list \<Rightarrow> int \<Rightarrow> AnomalyDetectionResponse option"
where
  "detect_anomalies fl data_array window_size =
     (if int (length data_array) < window_size
      then Some \<lparr> anomalies = [], scores = replicate (length data_array) 0, threshold = 3 \<rparr>
      else
        case detect_loop fl data_array window_size [0 ..< length data_array] ([], []) of
          None \<Rightarrow> None
        | Some (scs, ans) \<Rightarrow> Some \<lparr> anomalies = ans, scores = scs, threshold = 3 \<rparr>)"

text \<open>
  The score the specification gives to index \<open>i\<close> for a window of \<open>w\<close> points: zero
  before the first full window and on a window whose computed deviation is zero;
  otherwise the absolute value of the z-score, the distance of the point to the
  window's mean divided by the window's deviation, in float arithmetic.
\<close>

definition spec_score :: "float_arith \<Rightarrow> real list \<Rightarrow> nat \<Rightarrow> nat \<Rightarrow> real" where
  "spec_score fl S w i =
     (if i < w then 0
      else
        let window = take w (drop (i - w) S) in
        if np_std fl window = 0 then 0
        else \<bar>float_div fl (float_sub fl (S ! i) (np_mean fl window)) (np_std fl window)\<bar>)"

text \<open>
  The same score with the absolute value taken before the division, as the
  specification writes it.
\<close>

definition spec_score_abs_first :: "float_arith \<Rightarrow> real list \<Rightarrow> nat \<Rightarrow> nat \<Rightarrow> real" where
  "spec_score_abs_first fl S w i =
     (if i < w then 0
      else
        let window = take w (drop (i - w) S) in
        if np_std fl window = 0 then 0
        else float_div fl \<bar>float_sub fl (S ! i) (np_mean fl window)\<bar> (np_std fl window))"

text \<open>
  Arithmetic without rounding, one instance of the four operations.  Float arithmetic
  computes the same values wherever every intermediate result is a float, as on the
  series \<open>1, 3, 1, 3, 100\<close> with a window of 4 points (mean 2, deviation 1, score 98).
\<close>

definition exact_arith :: float_arith where
  "exact_arith =
     \<lparr> np_mean = (\<lambda>xs. sum_list xs / real (length xs)),
       np_std = (\<lambda>xs. sqrt (sum_list (map (\<lambda>x. \<bar>x - sum_list xs / real (length xs)\<bar> ^ 2) xs)
                             / real (length xs))),
       float_sub = (\<lambda>x y. x - y),
       float_div = (\<lambda>x y. x / y) \<rparr>"

section \<open>Market-path generator\<close>

record SimulationDataPoint =
  day :: int
  price :: real
  sma20 :: "real option"
  ema10 :: "real option"

record SimulationResult =
  sim_id :: string
  user_id :: string
  asset :: string
  strategy :: string
  timeframe :: int
  initial_capital :: real
  final_capital :: real
  roi :: real
  data :: "SimulationDataPoint list"
  created_at :: string

text \<open>Rounding to the nearest integer, ties to even, and \<open>round(x, 2)\<close>.\<close>

definition round_half_even :: "real \<Rightarrow> int" where
  "round_half_even x =
     (let f = \<lfloor>x\<rfloor>; d = x - of_int f
      in if d < 1 / 2 then f else if d > 1 / 2 then f + 1 else if even f then f else f + 1)"

definition round2 :: "real \<Rightarrow> real" where
  "round2 x = of_int (round_half_even (x * 100)) / 100"

text \<open>
  The source of randomness is an argument: \<open>rnd k\<close> is the value of the \<open>k\<close>-th call of
  \<open>random.random()\<close> during the run, a number in \<open>[0, 1)\<close>.  \<open>random.uniform(a, b)\<close> is
  \<open>a + (b - a) * random.random()\<close>.
\<close>

definition uniform :: "real \<Rightarrow> real \<Rightarrow> real \<Rightarrow> real" where
  "uniform a b u = a + (b - a) * u"

definition start_price_of :: "string \<Rightarrow> real" where
  "start_price_of a = (if a = ''BTC'' then 30000 else if a = ''ETH'' then 2000 else 100)"

definition volatility_of :: "string \<Rightarrow> real" where
  "volatility_of a = (if a = ''BTC'' then 0.03 else if a = ''ETH'' then 0.04 else 0.02)"

text \<open>
  The loop \<open>for i in range(timeframe)\<close> with \<open>current_price\<close> and the list \<open>data\<close> as
  state.  The loop runs on \<open>0, 1, ...\<close> from the empty list, so the list holds \<open>i\<close>
  points when step \<open>i\<close> reads it and every index read is in range.
\<close>

fun price_loop ::
  "(nat \<Rightarrow> real) \<Rightarrow> real \<Rightarrow> nat list \<Rightarrow> real \<times> SimulationDataPoint list
     \<Rightarrow> real \<times> SimulationDataPoint list"
where
  "price_loop rnd volatility [] (current_price, dat) = (current_price, dat)"
| "price_loop rnd volatility (i # rest) (current_price, dat) =
     (let change = current_price * volatility * (rnd i - 0.5);
          new_price = max (current_price + change) 0.1;
          sma = (if i \<ge> 19
                 then Some (sum_list (map (\<lambda>j. price (dat ! j)) [i - 19 ..< i]) / 20)
                 else None);
          ema = (if i \<ge> 9
                 then Some (sum_list (map (\<lambda>j. price (dat ! j)) [i - 9 ..< i]) / 10)
                 else None)
      in price_loop rnd volatility rest
           (new_price,
            dat @ [\<lparr> day = int i + 1, price = round2 new_price,
                     sma20 = map_option round2 sma, ema10 = map_option round2 ema \<rparr>]))"

text \<open>The dictionary \<open>strategy_performance\<close>: its five draws follow the \<open>n\<close> draws of
  the loop, in the order of the dictionary's entries.\<close>

definition strategy_performance :: "(nat \<Rightarrow> real) \<Rightarrow> nat \<Rightarrow> (string \<times> real) list" where
  "strategy_performance rnd n =
     [(''sma_crossover'', uniform (- 0.1) 0.3 (rnd n)),
      (''ema_crossover'', uniform (- 0.05) 0.25 (rnd (n + 1))),
      (''macd'', uniform (- 0.15) 0.35 (rnd (n + 2))),
      (''rsi'', uniform (- 0.2) 0.4 (rnd (n + 3))),
      (''bollinger'', uniform (- 0.1) 0.3 (rnd (n + 4)))]"

text \<open>\<open>strategy_performance.get(strategy, 0.1)\<close>\<close>

definition performance_of :: "(nat \<Rightarrow> real) \<Rightarrow> nat \<Rightarrow> string \<Rightarrow> real" where
  "performance_of rnd n strat =
     (case map_of (strategy_performance rnd n) strat of Some p \<Rightarrow> p | None \<Rightarrow> 0.1)"

text \<open>
  The raw (unrounded) price after \<open>k\<close> steps of the walk from \<open>p0\<close>: the value of
  \<open>current_price\<close> at the end of iteration \<open>k - 1\<close>.
\<close>

fun raw_price :: "(nat \<Rightarrow> real) \<Rightarrow> real \<Rightarrow> real \<Rightarrow> nat \<Rightarrow> real" where
  "raw_price rnd volatility p0 0 = p0"
| "raw_price rnd volatility p0 (Suc k) =
     max (raw_price rnd volatility p0 k
          + raw_price rnd volatility p0 k * volatility * (rnd k - 0.5)) 0.1"

text \<open>
  The ranges of the draws in \<open>strategy_performance\<close>, with the position of each draw
  after the draws of the loop.
\<close>

definition strategy_range :: "string \<Rightarrow> (real \<times> real \<times> nat) option" where
  "strategy_range = map_of
     [(''sma_crossover'', (- 0.1, 0.3, 0)),
      (''ema_crossover'', (- 0.05, 0.25, 1)),
      (''macd'', (- 0.15, 0.35, 2)),
      (''rsi'', (- 0.2, 0.4, 3)),
      (''bollinger'', (- 0.1, 0.3, 4))]"

text \<open>The state after \<open>n\<close> iterations of the loop from the empty list.\<close>

definition loop_state_ok ::
  "(nat \<Rightarrow> real) \<Rightarrow> real \<Rightarrow> real \<Rightarrow> nat \<Rightarrow> real \<times> SimulationDataPoint list \<Rightarrow> bool"
where
  "loop_state_ok rnd v p0 n st =
     (fst st = raw_price rnd v p0 n \<and> length (snd st) = n
      \<and> (\<forall>k. k < n \<longrightarrow>
            day (snd st ! k) = int k + 1
          \<and> price (snd st ! k) = round2 (raw_price rnd v p0 (Suc k))
          \<and> sma20 (snd st ! k)
              = (if 19 \<le> k
                 then Some (round2 (sum_list (map (\<lambda>j. price (snd st ! j)) [k - 19 ..< k]) / 20))
                 else None)
          \<and> ema10 (snd st ! k)
              = (if 9 \<le> k
                 then Some (round2 (sum_list (map (\<lambda>j. price (snd st ! j)) [k - 9 ..< k]) / 10))
                 else None)))"

text \<open>\<open>uuid\<close> and \<open>now\<close> are the values of \<open>str(uuid.uuid4())\<close> and of
  \<open>time.strftime\<close> in the run.\<close>

definition generate_mock_data ::
  "(nat \<Rightarrow> real) \<Rightarrow> string \<Rightarrow> string \<Rightarrow> string \<Rightarrow> string \<Rightarrow> int \<Rightarrow> real \<Rightarrow> SimulationResult"
where
  "generate_mock_data rnd uuid now a strat tf capital =
     (let n = nat tf;
          (last_price, dat) =
             price_loop rnd (volatility_of a) [0 ..< n] (start_price_of a, []);
          performance = performance_of rnd n strat;
          fc = capital * (1 + performance);
          r = performance * 100
      in \<lparr> sim_id = uuid, user_id = ''mock-user-id'', asset = a, strategy = strat,
           timeframe = tf, initial_capital = capital, final_capital = round2 fc,
           roi = round2 r, data = dat, created_at = now \<rparr>)"

section \<open>Feedback generator\<close>

record EducationalFeedbackResponse =
  feedback :: string
  key_points :: "string list"
  improvement_suggestions :: "string list"

text \<open>The exceptions of the model: a comparison between values that Python cannot
  compare, and any failure of a call to a language-model provider.\<close>

datatype error = TypeError | ProviderError

text \<open>
  The values of the \<open>performance\<close> dictionary (\<open>Dict[str, Any]\<close>, read from JSON).  A list
  or an object is given by the text that \<open>str\<close> returns for it.
\<close>

datatype pyval = PNone | PBool bool | PInt int | PFloat real | PStr string | POther string

text \<open>\<open>str(v)\<close>, as an f-string renders a value.  The rendering of floats (\<open>repr\<close>) is
  the argument \<open>frepr\<close>; integers are rendered by \<open>str_int\<close>, within the size that
  CPython renders.\<close>

fun py_str :: "(real \<Rightarrow> string) \<Rightarrow> pyval \<Rightarrow> string" where
  "py_str frepr PNone = ''None''"
| "py_str frepr (PBool b) = (if b then ''True'' else ''False'')"
| "py_str frepr (PInt i) = str_int i"
| "py_str frepr (PFloat x) = frepr x"
| "py_str frepr (PStr s) = s"
| "py_str frepr (POther s) = s"

text \<open>\<open>v > n\<close> for an integer literal \<open>n\<close>: numbers and booleans compare, every other
  value raises \<open>TypeError\<close>.\<close>

fun py_gt :: "pyval \<Rightarrow> int \<Rightarrow> error + bool" where
  "py_gt (PInt i) n = Inr (i > n)"
| "py_gt (PFloat x) n = Inr (x > of_int n)"
| "py_gt (PBool b) n = Inr ((if b then 1 else 0) > n)"
| "py_gt PNone n = Inl TypeError"
| "py_gt (PStr s) n = Inl TypeError"
| "py_gt (POther s) n = Inl TypeError"

text \<open>\<open>d.get(key, default)\<close>\<close>

definition dict_get :: "(string \<rightharpoonup> pyval) \<Rightarrow> string \<Rightarrow> pyval \<Rightarrow> pyval" where
  "dict_get d k dflt = (case d k of Some v \<Rightarrow> v | None \<Rightarrow> dflt)"

text \<open>\<open>needle in hay\<close> on strings.\<close>

fun is_substring :: "string \<Rightarrow> string \<Rightarrow> bool" where
  "is_substring needle [] = (needle = [])"
| "is_substring needle (c # cs) =
     (take (length needle) (c # cs) = needle \<or> is_substring needle cs)"

text \<open>\<open>s.split(sep)\<close> for a non-empty separator: the pieces between the occurrences of
  the separator, found from left to right.  \<open>cur\<close> is the piece read so far.\<close>

function split_from :: "string \<Rightarrow> string \<Rightarrow> string \<Rightarrow> string list" where
  "split_from sep cur [] = [cur]"
| "split_from sep cur (c # cs) =
     (if sep \<noteq> [] \<and> take (length sep) (c # cs) = sep
      then cur # split_from sep [] (drop (length sep) (c # cs))
      else split_from sep (cur @ [c]) cs)"
  by pat_completeness auto

termination
  by (relation "measure (\<lambda>(sep, cur, rest). length rest)") auto

definition py_split :: "string \<Rightarrow> string \<Rightarrow> string list" where
  "py_split s sep = split_from sep [] s"

text \<open>White space of \<open>str.strip()\<close> and \<open>str.isspace()\<close> within ASCII.\<close>

definition is_space :: "char \<Rightarrow> bool" where
  "is_space c = (let n = (of_char c :: nat) in (9 \<le> n \<and> n \<le> 13) \<or> (28 \<le> n \<and> n \<le> 32))"

text \<open>\<open>s.strip(chars)\<close> removes from both ends every character that satisfies the
  test.\<close>

definition strip_where :: "(char \<Rightarrow> bool) \<Rightarrow> string \<Rightarrow> string" where
  "strip_where P s = rev (dropWhile P (rev (dropWhile P s)))"

definition py_strip :: "string \<Rightarrow> string" where
  "py_strip s = strip_where is_space s"

definition strip_chars :: "string \<Rightarrow> string \<Rightarrow> string" where
  "strip_chars chars s = strip_where (\<lambda>c. c \<in> set chars) s"

text \<open>\<open>[p.strip("- ") for p in section.split("\n")[1:] if p.strip()]\<close>\<close>

definition section_items :: "string \<Rightarrow> string list" where
  "section_items sect =
     map (strip_chars ''- '')
       (filter (\<lambda>p. py_strip p \<noteq> []) (tl (py_split sect ''\<newline>'')))"

text \<open>The loop \<open>for section in sections\<close> with the lists \<open>key_points\<close> and
  \<open>improvement_suggestions\<close> as state.\<close>

fun extract_loop :: "string list \<Rightarrow> string list \<times> string list \<Rightarrow> string list \<times> string list" where
  "extract_loop [] (kps, sgs) = (kps, sgs)"
| "extract_loop (sect # rest) (kps, sgs) =
     (if is_substring ''key point'' (lower sect)
      then extract_loop rest (kps @ section_items sect, sgs)
      else if is_substring ''improvement'' (lower sect) \<or> is_substring ''suggestion'' (lower sect)
      then extract_loop rest (kps, sgs @ section_items sect)
      else extract_loop rest (kps, sgs))"

definition default_key_points :: "string list" where
  "default_key_points =
     [''Understanding market trends'', ''Risk management is essential'',
      ''Past performance is not indicative of future results'']"

definition default_suggestions :: "string list" where
  "default_suggestions =
     [''Consider backtesting with different parameters'',
      ''Combine with other indicators for confirmation'']"

text \<open>The parsing of a provider's response, the same text in \<open>_get_deepseek_feedback\<close>
  and in \<open>_get_openai_feedback\<close>, from \<open>content.split("\n\n")\<close> to the returned
  response.\<close>

definition parse_response :: "string \<Rightarrow> EducationalFeedbackResponse" where
  "parse_response content =
     (let sections = py_split content ''\<newline>\<newline>'';
          fb = (if length sections > 0 then sections ! 0 else '''');
          (kps, sgs) = extract_loop sections ([], []);
          kps' = (if kps = [] then default_key_points else kps);
          sgs' = (if sgs = [] then default_suggestions else sgs)
      in \<lparr> feedback = fb, key_points = take 5 kps', improvement_suggestions = take 3 sgs' \<rparr>)"

text \<open>
  A call to a provider is external: its outcome, the text of the first choice or an
  exception, is an argument of the model.
\<close>

definition get_deepseek_feedback :: "error + string \<Rightarrow> error + EducationalFeedbackResponse" where
  "get_deepseek_feedback reply =
     (case reply of Inl e \<Rightarrow> Inl e | Inr content \<Rightarrow> Inr (parse_response content))"

definition get_openai_feedback :: "error + string \<Rightarrow> error + EducationalFeedbackResponse" where
  "get_openai_feedback reply =
     (case reply of Inl e \<Rightarrow> Inl e | Inr content \<Rightarrow> Inr (parse_response content))"

definition strategy_names :: "(string \<times> string) list" where
  "strategy_names =
     [(''sma_crossover'', ''Simple Moving Average Crossover''),
      (''ema_crossover'', ''Exponential Moving Average Crossover''),
      (''macd'', ''Moving Average Convergence Divergence (MACD)''),
      (''rsi'', ''Relative Strength Index (RSI)''),
      (''bollinger'', ''Bollinger Bands'')]"

text \<open>The dictionary \<open>strategy_templates\<close> for an asset and a timeframe.\<close>

definition strategy_templates ::
  "string \<Rightarrow> int \<Rightarrow> (string \<times> EducationalFeedbackResponse) list"
where
  "strategy_templates a tf =
    [(''sma_crossover'',
      \<lparr> feedback =
          ''This simulation demonstrates a Simple Moving Average (SMA) Crossover ''
          @ ''strategy applied to ''
          @ a
          @ '' over ''
          @ str_int tf
          @ '' days. The strategy involves tracking two moving averages - typically a ''
          @ ''short-term and long-term SMA - and generating buy signals when the ''
          @ ''short-term SMA crosses above the long-term SMA, and sell signals when ''
          @ ''it crosses below. This strategy aims to identify trend changes and can ''
          @ ''be effective in trending markets, but may generate false signals in ''
          @ ''sideways or highly volatile markets.'',
        key_points =
          [''SMA Crossover strategies work best in trending markets'',
           ''The choice of SMA periods significantly impacts performance'',
           ''This strategy typically lags behind price movements due to the nature ''
              @ ''of moving averages'',
           ''False signals are common during sideways market conditions''],
        improvement_suggestions =
          [''Consider adding a confirmation indicator like volume or RSI'',
           ''Test different SMA period combinations to optimize for your asset'',
           ''Implement a stop-loss strategy to manage downside risk''] \<rparr>),
     (''ema_crossover'',
      \<lparr> feedback =
          ''This simulation demonstrates an Exponential Moving Average (EMA) ''
          @ ''Crossover strategy applied to ''
          @ a
          @ '' over ''
          @ str_int tf
          @ '' days. EMA crossover strategies are similar to SMA crossovers but give ''
          @ ''more weight to recent price data, making them more responsive to new ''
          @ ''information. The strategy generates buy signals when a shorter-term EMA ''
          @ ''crosses above a longer-term EMA, and sell signals when it crosses ''
          @ ''below. EMA crossovers can respond faster to trend changes than SMA ''
          @ ''crossovers, but this responsiveness can also lead to more false signals ''
          @ ''in volatile markets.'',
        key_points =
          [''EMA Crossover strategies respond faster to price changes than SMA ''
              @ ''strategies'',
           ''The strategy is more sensitive to recent price movements'',
           ''While more responsive, EMA crossovers can generate more false signals ''
              @ ''in volatile markets'',
           ''The choice of EMA periods significantly impacts performance''],
        improvement_suggestions =
          [''Consider using a price filter to reduce false signals'',
           ''Test different EMA period combinations to find optimal settings'',
           ''Combine with volatility indicators to avoid trading during choppy ''
              @ ''markets''] \<rparr>),
     (''macd'',
      \<lparr> feedback =
          ''This simulation demonstrates a Moving Average Convergence Divergence ''
          @ ''(MACD) strategy applied to ''
          @ a
          @ '' over ''
          @ str_int tf
          @ '' days. MACD is a trend-following momentum indicator that shows the ''
          @ ''relationship between two moving averages of an asset's price. The MACD ''
          @ ''line is calculated by subtracting the 26-period EMA from the 12-period ''
          @ ''EMA. A 9-period EMA of the MACD, called the 'signal line', is then ''
          @ ''plotted on top of the MACD line. Buy signals typically occur when the ''
          @ ''MACD line crosses above the signal line, and sell signals when it ''
          @ ''crosses below. MACD can also show divergence with price, potentially ''
          @ ''indicating trend reversals.'',
        key_points =
          [''MACD combines trend following and momentum in one indicator'',
           ''Signal line crossovers are the primary trading signals'',
           ''Divergence between MACD and price can indicate potential reversals'',
           ''MACD histogram shows the difference between MACD and signal line''],
        improvement_suggestions =
          [''Use MACD in conjunction with price action analysis'',
           ''Consider the overall trend direction before taking MACD signals'',
           ''Look for MACD divergence to identify potential trend exhaustion''] \<rparr>),
     (''rsi'',
      \<lparr> feedback =
          ''This simulation demonstrates a Relative Strength Index (RSI) strategy ''
          @ ''applied to ''
          @ a
          @ '' over ''
          @ str_int tf
          @ '' days. RSI is a momentum oscillator that measures the speed and change ''
          @ ''of price movements on a scale from 0 to 100. Traditional interpretation ''
          @ ''considers RSI values over 70 as overbought and under 30 as oversold, ''
          @ ''potentially signaling reversal points. RSI strategies can be effective ''
          @ ''for identifying potential reversal points in the market, but can lead ''
          @ ''to premature entries during strong trends. The indicator works best in ''
          @ ''ranging markets and should be used with caution during strong trending ''
          @ ''periods.'',
        key_points =
          [''RSI measures the magnitude of recent price changes to evaluate ''
              @ ''overbought or oversold conditions'',
           ''Traditional overbought level is 70 and oversold level is 30'',
           ''RSI can remain in overbought/oversold territory during strong trends'',
           ''RSI divergence with price can signal potential trend reversals''],
        improvement_suggestions =
          [''Adjust the RSI overbought/oversold levels based on the asset's ''
              @ ''volatility'',
           ''Combine RSI with trend indicators to avoid counter-trend trades'',
           ''Look for RSI divergence to confirm potential reversal signals''] \<rparr>),
     (''bollinger'',
      \<lparr> feedback =
          ''This simulation demonstrates a Bollinger Bands strategy applied to ''
          @ a
          @ '' over ''
          @ str_int tf
          @ '' days. Bollinger Bands consist of a middle band (typically a 20-period ''
          @ ''SMA) with an upper and lower band set at standard deviations away from ''
          @ ''the middle band. The bands expand and contract based on volatility. ''
          @ ''Common strategies include buying when the price touches the lower band ''
          @ ''and selling when it touches the upper band (mean reversion), or ''
          @ ''entering trades when the price breaks out of the bands after a period ''
          @ ''of low volatility (volatility expansion). Bollinger Bands are versatile ''
          @ ''and can be used in both trending and ranging markets with appropriate ''
          @ ''adjustments.'',
        key_points =
          [''Bollinger Bands adapt to market volatility by widening and narrowing'',
           ''Price touching the bands alone is not necessarily a signal to trade'',
           ''Band width indicates market volatility - narrow bands often precede ''
              @ ''significant moves'',
           ''The middle band (SMA) can act as support/resistance in trending markets''],
        improvement_suggestions =
          [''Combine with volume indicators to confirm breakouts'',
           ''Use additional indicators to determine if the market is trending or ''
              @ ''ranging'',
           ''Consider using Bollinger Band %B or Bandwidth for additional insights''] \<rparr>)]"

text \<open>The default of \<open>strategy_templates.get\<close>.\<close>

definition default_template ::
  "(real \<Rightarrow> string) \<Rightarrow> string \<Rightarrow> string \<Rightarrow> int \<Rightarrow> (string \<rightharpoonup> pyval)
     \<Rightarrow> EducationalFeedbackResponse"
where
  "default_template frepr strategy_name a tf performance =
     \<lparr> feedback =
         ''This simulation demonstrates a ''
         @ strategy_name
         @ '' strategy applied to ''
         @ a
         @ '' over ''
         @ str_int tf
         @ '' days. The performance shows an ROI of ''
         @ py_str frepr (dict_get performance ''roi'' (PStr ''unknown''))
         @ ''%. Trading strategies can perform differently depending on market ''
         @ ''conditions, timeframes, and specific assets. It's important to ''
         @ ''understand the underlying principles of the strategy and how various ''
         @ ''market factors can influence its performance.'',
       key_points =
         [''Different strategies perform better in different market conditions'',
          ''Risk management is essential for long-term success'',
          ''Past performance is not indicative of future results'',
          ''Understanding the underlying principles of a strategy is more valuable ''
             @ ''than blindly following signals''],
       improvement_suggestions =
         [''Backtest the strategy across different market conditions'',
          ''Consider combining multiple indicators for confirmation'',
          ''Implement proper position sizing and risk management rules''] \<rparr>"

text \<open>The three sentences on the performance.\<close>

definition feedback_well :: "(real \<Rightarrow> string) \<Rightarrow> pyval \<Rightarrow> string" where
  "feedback_well frepr roi_v =
     ''The strategy performed well with an ROI of ''
       @ py_str frepr roi_v
       @ ''%, but remember that past performance doesn't guarantee future results. ''
       @ ''Market conditions can change rapidly.''"

definition feedback_moderate :: "(real \<Rightarrow> string) \<Rightarrow> pyval \<Rightarrow> string" where
  "feedback_moderate frepr roi_v =
     ''The strategy showed a positive ROI of ''
       @ py_str frepr roi_v
       @ ''%, which is a moderate result. Consider how different market conditions ''
       @ ''might affect performance.''"

definition feedback_negative :: "(real \<Rightarrow> string) \<Rightarrow> pyval \<Rightarrow> string" where
  "feedback_negative frepr roi_v =
     ''The strategy resulted in a negative ROI of ''
       @ py_str frepr roi_v
       @ ''%. This provides a valuable learning opportunity to understand what ''
       @ ''factors contributed to the underperformance.''"

text \<open>\<open>strategy_templates.get(strategy, {...})\<close>, with \<open>strategy_name\<close> the readable
  name of the strategy or, for a strategy without one, the strategy itself.\<close>

definition template_for ::
  "(real \<Rightarrow> string) \<Rightarrow> string \<Rightarrow> string \<Rightarrow> int \<Rightarrow> (string \<rightharpoonup> pyval)
     \<Rightarrow> EducationalFeedbackResponse"
where
  "template_for frepr a strat tf performance =
     (let strategy_name = (case map_of strategy_names strat of Some n \<Rightarrow> n | None \<Rightarrow> strat)
      in case map_of (strategy_templates a tf) strat of
           Some t \<Rightarrow> t
         | None \<Rightarrow> default_template frepr strategy_name a tf performance)"

text \<open>The sentence that places the strategy in its context, common to all templates,
  and the test that \<open>performance['roi']\<close> is as the contract of the feedback generator
  types it, a float, or is absent.\<close>

definition applied_context :: "string \<Rightarrow> int \<Rightarrow> string" where
  "applied_context a tf = '' strategy applied to '' @ a @ '' over '' @ str_int tf @ '' days.''"

fun is_float :: "pyval \<Rightarrow> bool" where
  "is_float (PFloat x) = True"
| "is_float (PInt i) = False"
| "is_float (PBool b) = False"
| "is_float PNone = False"
| "is_float (PStr s) = False"
| "is_float (POther s) = False"

definition roi_is_float :: "(string \<rightharpoonup> pyval) \<Rightarrow> bool" where
  "roi_is_float performance = (case performance ''roi'' of None \<Rightarrow> True | Some v \<Rightarrow> is_float v)"

definition get_template_feedback ::
  "(real \<Rightarrow> string) \<Rightarrow> string \<Rightarrow> string \<Rightarrow> int \<Rightarrow> (string \<rightharpoonup> pyval)
     \<Rightarrow> error + EducationalFeedbackResponse"
where
  "get_template_feedback frepr a strat tf performance =
     (let template = template_for frepr a strat tf performance;
          roi_v = dict_get performance ''roi'' (PInt 0);
          respond = (\<lambda>performance_feedback.
                       Inr \<lparr> feedback = feedback template @ '' '' @ performance_feedback,
                             key_points = key_points template,
                             improvement_suggestions = improvement_suggestions template \<rparr>)
      in case py_gt roi_v 15 of
           Inl e \<Rightarrow> Inl e
         | Inr True \<Rightarrow> respond (feedback_well frepr roi_v)
         | Inr False \<Rightarrow>
             (case py_gt roi_v 0 of
                Inl e \<Rightarrow> Inl e
              | Inr True \<Rightarrow> respond (feedback_moderate frepr roi_v)
              | Inr False \<Rightarrow> respond (feedback_negative frepr roi_v)))"

record Settings =
  DEEPSEEK_API_KEY :: string
  OPENAI_API_KEY :: string

text \<open>The result of the outer \<open>except\<close>.\<close>

definition final_fallback :: EducationalFeedbackResponse where
  "final_fallback =
     \<lparr> feedback = ''Unable to generate feedback at this time. Please try again later.'',
       key_points = [''System is currently experiencing issues.''],
       improvement_suggestions = [''Please try again later.''] \<rparr>"

text \<open>
  \<open>get_educational_feedback\<close>: a tier is tried when its key is set (a non-empty
  string); an exception of a provider tier is caught there and the next tier is tried;
  an exception of the template tier is caught by the outer handler.
\<close>

definition get_educational_feedback ::
  "Settings \<Rightarrow> error + string \<Rightarrow> error + string \<Rightarrow> (real \<Rightarrow> string)
     \<Rightarrow> string \<Rightarrow> string \<Rightarrow> int \<Rightarrow> (string \<rightharpoonup> pyval) \<Rightarrow> EducationalFeedbackResponse"
where
  "get_educational_feedback settings deepseek_reply openai_reply frepr a strat tf performance =
     (let tier1 = (if DEEPSEEK_API_KEY settings \<noteq> []
                   then (case get_deepseek_feedback deepseek_reply of
                           Inr r \<Rightarrow> Some r | Inl e \<Rightarrow> None)
                   else None)
      in case tier1 of
           Some r \<Rightarrow> r
         | None \<Rightarrow>
             let tier2 = (if OPENAI_API_KEY settings \<noteq> []
                          then (case get_openai_feedback openai_reply of
                                  Inr r \<Rightarrow> Some r | Inl e \<Rightarrow> None)
                          else None)
             in case tier2 of
                  Some r \<Rightarrow> r
                | None \<Rightarrow>
                    (case get_template_feedback frepr a strat tf performance of
                       Inr r \<Rightarrow> r
                     | Inl e \<Rightarrow> final_fallback))"

section \<open>Properties of the sentiment scorer\<close>

lemma re_search_occurrences: "re_search keyword t \<longleftrightarrow> 0 < occurrences keyword t"
  by (auto simp add: re_search_def occurrences_def list_ex_iff filter_empty_conv)

lemma keyword_count_min:
  "keyword_count kws t = sum_list (map (\<lambda>keyword. min 1 (occurrences keyword t)) kws)"
proof (induction kws)
  case Nil
  show ?case by (simp add: keyword_count_def)
next
  case (Cons k ks)
  then show ?case
    by (cases "re_search k t") (auto simp add: keyword_count_def re_search_occurrences)
qed

lemma keyword_count_le: "keyword_count kws t \<le> length kws"
proof -
  have "keyword_count kws t = length (filter (\<lambda>keyword. re_search keyword t) kws)"
    by (simp add: keyword_count_def sum_list_triv)
  then show ?thesis by simp
qed

text \<open>
  Claim C1, as the code has it: each count is the number of lexicon terms that occur in
  the lower-cased text as a whole word at least once.  A term contributes \<open>1\<close> however
  often it occurs, so neither count exceeds the 23 terms of its lexicon.
\<close>

theorem C1_terms_counted_once:
  "positive_count txt
     = sum_list (map (\<lambda>keyword. min 1 (occurrences keyword (lower txt))) positive_keywords)
   \<and> negative_count txt
     = sum_list (map (\<lambda>keyword. min 1 (occurrences keyword (lower txt))) negative_keywords)
   \<and> positive_count txt \<le> 23 \<and> negative_count txt \<le> 23"
proof -
  have "length positive_keywords = 23" by (simp add: positive_keywords_def)
  moreover have "length negative_keywords = 23" by (simp add: negative_keywords_def)
  moreover have "positive_count txt \<le> length positive_keywords"
    unfolding positive_count_def by (rule keyword_count_le)
  moreover have "negative_count txt \<le> length negative_keywords"
    unfolding negative_count_def by (rule keyword_count_le)
  ultimately show ?thesis
    by (simp add: positive_count_def negative_count_def keyword_count_min)
qed

text \<open>
  Claim C1 as stated fails: in the text \<open>gain gain\<close> the term \<open>gain\<close> occurs twice as a
  whole word, the sum of occurrences over the positive lexicon is 2, and
  \<open>positive_count\<close> is 1.
\<close>

theorem C1_repeated_term_counterexample:
  "positive_count ''gain gain'' = 1
   \<and> occurrences ''gain'' (lower ''gain gain'') = 2
   \<and> occurrence_sum positive_keywords (lower ''gain gain'') = 2"
  by code_simp

lemma score_bounds:
  fixes p n :: nat
  assumes "p + n \<noteq> 0"
  shows "- 1 \<le> (real p - real n) / real (p + n)" and "(real p - real n) / real (p + n) \<le> 1"
proof -
  have "0 < p + n" using assms by simp
  then have pos: "0 < real (p + n)" by (simp only: of_nat_0_less_iff)
  have lo: "- 1 * real (p + n) \<le> real p - real n" by simp
  show "- 1 \<le> (real p - real n) / real (p + n)"
    using lo pos by (simp only: pos_le_divide_eq)
  have hi: "real p - real n \<le> 1 * real (p + n)" by simp
  show "(real p - real n) / real (p + n) \<le> 1"
    using hi pos by (simp only: pos_divide_le_eq)
qed

text \<open>
  Claim C6: with no keyword match the result is score 0, category neutral and the
  explanation that no indicators were found; otherwise the score is the difference of
  the counts over their sum.  The score lies in \<open>[-1, 1]\<close>, and the category is positive
  above 0.25, negative below -0.25 and neutral otherwise.
\<close>

theorem C6_score_and_category:
  "score (analyze_sentiment txt)
     = (if positive_count txt + negative_count txt = 0 then 0
        else (real (positive_count txt) - real (negative_count txt))
               / real (positive_count txt + negative_count txt))
   \<and> - 1 \<le> score (analyze_sentiment txt) \<and> score (analyze_sentiment txt) \<le> 1
   \<and> sentiment (analyze_sentiment txt)
     = (if score (analyze_sentiment txt) > 0.25 then ''positive''
        else if score (analyze_sentiment txt) < - 0.25 then ''negative''
        else ''neutral'')
   \<and> (positive_count txt + negative_count txt = 0 \<longrightarrow>
        analyze_sentiment txt
          = \<lparr> sentiment = ''neutral'', score = 0,
              explanation = ''No clear sentiment indicators found in the text.'' \<rparr>)"
proof (cases "positive_count txt + negative_count txt = 0")
  case True
  then show ?thesis by (simp add: analyze_sentiment_def)
next
  case False
  define s where "s = (real (positive_count txt) - real (negative_count txt))
               / real (positive_count txt + negative_count txt)"
  have b: "- 1 \<le> s" "s \<le> 1" unfolding s_def using score_bounds [OF False] by simp_all
  have sc: "score (analyze_sentiment txt) = s"
    using False by (simp add: analyze_sentiment_def Let_def s_def)
  have se: "sentiment (analyze_sentiment txt)
     = (if s > 0.25 then ''positive'' else if s < - 0.25 then ''negative'' else ''neutral'')"
    using False by (simp add: analyze_sentiment_def Let_def s_def)
  have "score (analyze_sentiment txt)
     = (if positive_count txt + negative_count txt = 0 then 0
        else (real (positive_count txt) - real (negative_count txt))
               / real (positive_count txt + negative_count txt))"
    using False sc by (simp only: s_def if_False)
  moreover have "- 1 \<le> score (analyze_sentiment txt)" "score (analyze_sentiment txt) \<le> 1"
    using b by (simp_all only: sc)
  moreover have "sentiment (analyze_sentiment txt)
     = (if score (analyze_sentiment txt) > 0.25 then ''positive''
        else if score (analyze_sentiment txt) < - 0.25 then ''negative''
        else ''neutral'')"
    using se by (simp only: sc)
  ultimately show ?thesis using False by blast
qed

theorem C6_empty_text_witness:
  "positive_count '''' + negative_count '''' = 0
   \<and> analyze_sentiment ''''
          = \<lparr> sentiment = ''neutral'', score = 0,
              explanation = ''No clear sentiment indicators found in the text.'' \<rparr>"
proof -
  have z: "positive_count '''' + negative_count '''' = 0" by code_simp
  show ?thesis using z C6_score_and_category [of "''''"] by simp
qed

section \<open>Properties of the anomaly detector\<close>

text \<open>
  Claim C7: a series shorter than the window gives one zero score per element, no
  anomaly and the threshold 3.
\<close>

theorem C7_short_series:
  "int (length S) < window_size \<Longrightarrow>
   detect_anomalies fl S window_size
     = Some \<lparr> anomalies = [], scores = replicate (length S) 0, threshold = 3 \<rparr>"
  by (simp add: detect_anomalies_def)

theorem C7_short_series_witness:
  "int (length [1, 2 :: real]) < 20
   \<and> detect_anomalies exact_arith [1, 2] 20
       = Some \<lparr> anomalies = [], scores = [0, 0], threshold = 3 \<rparr>"
proof -
  have h: "int (length [1, 2 :: real]) < 20" by simp
  show ?thesis using h C7_short_series [OF h, of exact_arith] by (simp add: numeral_2_eq_2)
qed

lemma py_slice_window:
  assumes "w \<le> i" and "i \<le> length S"
  shows "py_slice S (int i - int w) (int i) = take w (drop (i - w) S)"
proof -
  have a: "slice_index (int i - int w) (length S) = i - w"
    using assms by (simp add: slice_index_def nat_diff_distrib')
  have b: "slice_index (int i) (length S) = i"
    using assms by (simp add: slice_index_def)
  have "i - (i - w) = w" using assms by simp
  then show ?thesis by (simp add: py_slice_def a b)
qed

lemma window_not_empty:
  assumes "0 < w" and "w \<le> i" and "i \<le> length S"
  shows "take w (drop (i - w) S) \<noteq> []"
proof -
  have "length (take w (drop (i - w) S)) = w" using assms by simp
  then show ?thesis using assms(1) by auto
qed

lemma detect_loop_closed_form:
  assumes "0 < w" and "\<forall>i \<in> set idxs. i < length S"
  shows "detect_loop fl S (int w) idxs (scs, ans)
           = Some (scs @ map (spec_score fl S w) idxs,
                   ans @ filter (\<lambda>i. 3 < spec_score fl S w i) idxs)"
  using assms(2)
proof (induction idxs arbitrary: scs ans)
  case Nil
  show ?case by simp
next
  case (Cons i rest)
  have rest: "\<forall>j \<in> set rest. j < length S" using Cons.prems by simp
  have i_len: "i < length S" using Cons.prems by simp
  show ?case
  proof (cases "i < w")
    case True
    then have z: "spec_score fl S w i = 0" by (simp add: spec_score_def)
    show ?thesis using True Cons.IH [OF rest] by (simp add: z)
  next
    case False
    then have wi: "w \<le> i" by simp
    define window where "window = take w (drop (i - w) S)"
    have sl: "py_slice S (int i - int w) (int i) = window"
      unfolding window_def using wi i_len by (simp add: py_slice_window)
    have ne: "window \<noteq> []"
      unfolding window_def using assms(1) wi i_len by (simp add: window_not_empty)
    show ?thesis
    proof (cases "np_std fl window = 0")
      case True
      have z: "spec_score fl S w i = 0"
        using False True by (simp add: spec_score_def window_def [symmetric])
      show ?thesis using False True ne Cons.IH [OF rest] by (simp add: sl z)
    next
      case nz: False
      have z: "spec_score fl S w i
                 = \<bar>float_div fl (float_sub fl (S ! i) (np_mean fl window)) (np_std fl window)\<bar>"
        using False nz by (simp add: spec_score_def window_def [symmetric])
      show ?thesis using False nz ne Cons.IH [OF rest]
        by (simp add: sl z Let_def)
    qed
  qed
qed

text \<open>
  The absolute value may be taken before the division when the division is symmetric
  in the sign of its first argument, as the division of floats is, and the deviation
  is never negative, as a square root is not.
\<close>

lemma spec_score_abs_first_eq:
  assumes "\<forall>x y. 0 < y \<longrightarrow> \<bar>float_div fl x y\<bar> = float_div fl \<bar>x\<bar> y"
    and "\<forall>xs. 0 \<le> np_std fl xs"
  shows "spec_score fl S w i = spec_score_abs_first fl S w i"
proof (cases "i < w \<or> np_std fl (take w (drop (i - w) S)) = 0")
  case True
  then show ?thesis by (auto simp add: spec_score_def spec_score_abs_first_def)
next
  case False
  then have "0 < np_std fl (take w (drop (i - w) S))"
    using assms(2) by (simp add: order_less_le)
  then show ?thesis
    using False assms(1) by (simp add: spec_score_def spec_score_abs_first_def Let_def)
qed

text \<open>
  Claim C5: for a window of \<open>w > 0\<close> points and a series of at least \<open>w\<close> points
  the detector returns; the scores are those of the specification, one per element of
  the series, with the mean, the deviation, the difference and the quotient as float
  arithmetic computes them; an index is listed as anomaly exactly when its score
  exceeds 3; and the anomalies are listed in ascending order, each once.
\<close>

theorem C5_scores_and_anomalies:
  assumes "0 < w" and "w \<le> length S"
  shows "\<exists>scs ans.
           detect_anomalies fl S (int w)
             = Some \<lparr> anomalies = ans, scores = scs, threshold = 3 \<rparr>
           \<and> length scs = length S
           \<and> scs = map (spec_score fl S w) [0 ..< length S]
           \<and> ans = filter (\<lambda>i. 3 < scs ! i) [0 ..< length S]
           \<and> (\<forall>i. i \<in> set ans \<longleftrightarrow> i < length S \<and> 3 < scs ! i)
           \<and> sorted ans \<and> distinct ans"
proof -
  define scs where "scs = map (spec_score fl S w) [0 ..< length S]"
  define ans where "ans = filter (\<lambda>i. 3 < spec_score fl S w i) [0 ..< length S]"
  have "detect_loop fl S (int w) [0 ..< length S] ([], []) = Some ([] @ scs, [] @ ans)"
    unfolding scs_def ans_def using assms(1) by (intro detect_loop_closed_form) simp_all
  then have r: "detect_anomalies fl S (int w)
                  = Some \<lparr> anomalies = ans, scores = scs, threshold = 3 \<rparr>"
    using assms(2) by (simp add: detect_anomalies_def)
  have len: "length scs = length S" by (simp add: scs_def)
  have mem: "\<forall>i. i \<in> set ans \<longleftrightarrow> i < length S \<and> 3 < scs ! i"
    by (auto simp add: ans_def scs_def)
  have srt: "sorted ans" unfolding ans_def by (simp add: sorted_wrt_filter)
  have dst: "distinct ans" unfolding ans_def by simp
  have flt: "ans = filter (\<lambda>i. 3 < scs ! i) [0 ..< length S]"
    unfolding ans_def scs_def by (rule filter_cong) simp_all
  show ?thesis using r len mem srt dst flt scs_def by blast
qed

lemma np_mean_example: "np_mean exact_arith [1, 3, 1, 3] = 2"
  by (simp add: exact_arith_def)

lemma np_std_example: "np_std exact_arith [1, 3, 1, 3] = 1"
  by (simp add: exact_arith_def)

lemma spec_score_example:
  "map (spec_score exact_arith [1, 3, 1, 3, 100] 4) [0, 1, 2, 3, 4] = [0, 0, 0, 0, 98]"
proof -
  have "float_div exact_arith (float_sub exact_arith 100 2) 1 = 98"
    by (simp add: exact_arith_def)
  then have "spec_score exact_arith [1, 3, 1, 3, 100] 4 4 = 98"
    by (simp add: spec_score_def Let_def np_mean_example np_std_example)
  then show ?thesis by (simp add: spec_score_def)
qed

theorem C5_scores_and_anomalies_witness:
  "(0::nat) < 4 \<and> 4 \<le> length [1, 3, 1, 3, 100 :: real]
   \<and> detect_anomalies exact_arith [1, 3, 1, 3, 100] (int 4)
       = Some \<lparr> anomalies = [4], scores = [0, 0, 0, 0, 98], threshold = 3 \<rparr>"
proof -
  have h1: "(0::nat) < 4" by simp
  have h2: "(4::nat) \<le> length [1, 3, 1, 3, 100 :: real]" by simp
  have up: "[0 ..< length [1, 3, 1, 3, 100 :: real]] = [0, 1, 2, 3, 4]"
    by (simp add: upt_rec)
  obtain scs ans where
    r: "detect_anomalies exact_arith [1, 3, 1, 3, 100] (int 4)
          = Some \<lparr> anomalies = ans, scores = scs, threshold = 3 \<rparr>"
    and sc: "scs = map (spec_score exact_arith [1, 3, 1, 3, 100] 4)
                     [0 ..< length [1, 3, 1, 3, 100 :: real]]"
    and fl: "ans = filter (\<lambda>i. 3 < scs ! i) [0 ..< length [1, 3, 1, 3, 100 :: real]]"
    using C5_scores_and_anomalies [OF h1 h2, of exact_arith] by blast
  have scv: "scs = [0, 0, 0, 0, 98]"
    using sc by (simp only: up spec_score_example)
  have "ans = filter (\<lambda>i. 3 < [0, 0, 0, 0, 98 :: real] ! i) [0, 1, 2, 3, 4]"
    using fl by (simp only: up scv)
  then have "ans = [4]" by simp
  then show ?thesis using h1 h2 r scv by simp
qed

section \<open>Properties of the market-path generator\<close>

lemma round_half_even_ge_floor: "\<lfloor>x\<rfloor> \<le> round_half_even x"
  by (simp add: round_half_even_def Let_def)

lemma round2_floor_price:
  assumes "1 / 10 \<le> x"
  shows "1 / 10 \<le> round2 x"
proof -
  have "(10::real) \<le> x * 100" using assms by simp
  then have "(10::int) \<le> \<lfloor>x * 100\<rfloor>" by (simp add: le_floor_iff)
  then have "(10::int) \<le> round_half_even (x * 100)"
    using round_half_even_ge_floor [of "x * 100"] by linarith
  then have "(10::real) \<le> of_int (round_half_even (x * 100))" by linarith
  then show ?thesis by (simp add: round2_def)
qed

lemma raw_price_floor: "1 / 10 \<le> raw_price rnd v p0 (Suc k)"
  by simp

lemma price_loop_append:
  "price_loop rnd v (xs @ ys) st = price_loop rnd v ys (price_loop rnd v xs st)"
proof (induction xs arbitrary: st)
  case Nil
  show ?case by (cases st) simp
next
  case (Cons i rest)
  show ?case by (cases st) (simp add: Let_def Cons.IH)
qed

lemma map_nth_append_below:
  assumes "b \<le> length xs"
  shows "map (\<lambda>j. f ((xs @ ys) ! j)) [a ..< b] = map (\<lambda>j. f (xs ! j)) [a ..< b]"
  using assms by (auto simp add: nth_append)

lemma price_loop_state: "loop_state_ok rnd v p0 n (price_loop rnd v [0 ..< n] (p0, []))"
proof (induction n)
  case 0
  show ?case by (simp add: loop_state_ok_def)
next
  case (Suc n)
  obtain cp dat where st: "price_loop rnd v [0 ..< n] (p0, []) = (cp, dat)"
    by (cases "price_loop rnd v [0 ..< n] (p0, [])") auto
  have cp: "cp = raw_price rnd v p0 n" and len: "length dat = n"
    using Suc.IH by (simp_all add: st loop_state_ok_def)
  have old: "\<And>k. k < n \<Longrightarrow>
            day (dat ! k) = int k + 1
          \<and> price (dat ! k) = round2 (raw_price rnd v p0 (Suc k))
          \<and> sma20 (dat ! k)
              = (if 19 \<le> k
                 then Some (round2 (sum_list (map (\<lambda>j. price (dat ! j)) [k - 19 ..< k]) / 20))
                 else None)
          \<and> ema10 (dat ! k)
              = (if 9 \<le> k
                 then Some (round2 (sum_list (map (\<lambda>j. price (dat ! j)) [k - 9 ..< k]) / 10))
                 else None)"
    using Suc.IH by (simp add: st loop_state_ok_def)
  define pt where "pt = \<lparr> day = int n + 1, price = round2 (raw_price rnd v p0 (Suc n)),
     sma20 = (if 19 \<le> n
              then Some (round2 (sum_list (map (\<lambda>j. price (dat ! j)) [n - 19 ..< n]) / 20))
              else None),
     ema10 = (if 9 \<le> n
              then Some (round2 (sum_list (map (\<lambda>j. price (dat ! j)) [n - 9 ..< n]) / 10))
              else None) \<rparr>"
  have step: "price_loop rnd v [0 ..< Suc n] (p0, []) = (raw_price rnd v p0 (Suc n), dat @ [pt])"
    by (simp add: price_loop_append st Let_def cp pt_def)
  have new: "\<And>k. k < Suc n \<Longrightarrow>
            day ((dat @ [pt]) ! k) = int k + 1
          \<and> price ((dat @ [pt]) ! k) = round2 (raw_price rnd v p0 (Suc k))
          \<and> sma20 ((dat @ [pt]) ! k)
              = (if 19 \<le> k
                 then Some (round2 (sum_list (map (\<lambda>j. price ((dat @ [pt]) ! j)) [k - 19 ..< k]) / 20))
                 else None)
          \<and> ema10 ((dat @ [pt]) ! k)
              = (if 9 \<le> k
                 then Some (round2 (sum_list (map (\<lambda>j. price ((dat @ [pt]) ! j)) [k - 9 ..< k]) / 10))
                 else None)"
  proof -
    fix k assume k: "k < Suc n"
    have below: "\<And>a. map (\<lambda>j. price ((dat @ [pt]) ! j)) [a ..< k]
                      = map (\<lambda>j. price (dat ! j)) [a ..< k]"
      using k len by (intro map_nth_append_below) simp
    show "day ((dat @ [pt]) ! k) = int k + 1
          \<and> price ((dat @ [pt]) ! k) = round2 (raw_price rnd v p0 (Suc k))
          \<and> sma20 ((dat @ [pt]) ! k)
              = (if 19 \<le> k
                 then Some (round2 (sum_list (map (\<lambda>j. price ((dat @ [pt]) ! j)) [k - 19 ..< k]) / 20))
                 else None)
          \<and> ema10 ((dat @ [pt]) ! k)
              = (if 9 \<le> k
                 then Some (round2 (sum_list (map (\<lambda>j. price ((dat @ [pt]) ! j)) [k - 9 ..< k]) / 10))
                 else None)"
    proof (cases "k < n")
      case True
      then have "(dat @ [pt]) ! k = dat ! k" using len by (simp add: nth_append)
      then show ?thesis using old [OF True] by (simp only: below)
    next
      case False
      then have kn: "k = n" using k by simp
      have "(dat @ [pt]) ! k = pt" using kn len by (simp add: nth_append)
      then show ?thesis unfolding below by (simp add: kn pt_def)
    qed
  qed
  show ?case
    unfolding step loop_state_ok_def using len new by simp
qed

lemma generate_mock_data_series:
  "loop_state_ok rnd (volatility_of a) (start_price_of a) (nat tf)
     (raw_price rnd (volatility_of a) (start_price_of a) (nat tf),
      data (generate_mock_data rnd uuid now a strat tf capital))"
proof -
  obtain cp dat where
    st: "price_loop rnd (volatility_of a) [0 ..< nat tf] (start_price_of a, []) = (cp, dat)"
    by (cases "price_loop rnd (volatility_of a) [0 ..< nat tf] (start_price_of a, [])") auto
  have ok: "loop_state_ok rnd (volatility_of a) (start_price_of a) (nat tf) (cp, dat)"
    using price_loop_state [of rnd "volatility_of a" "start_price_of a" "nat tf"]
    by (simp only: st)
  then have cp: "cp = raw_price rnd (volatility_of a) (start_price_of a) (nat tf)"
    by (simp add: loop_state_ok_def)
  have "data (generate_mock_data rnd uuid now a strat tf capital) = dat"
    by (simp add: generate_mock_data_def Let_def st)
  then show ?thesis using ok cp by simp
qed

text \<open>
  Claim C8: for a positive timeframe the series has exactly \<open>timeframe\<close> points, their
  days are \<open>1, 2, ..., timeframe\<close> in this order, the SMA indicator is present exactly
  from day 20 on, the EMA indicator exactly from day 10 on, and every recorded price
  is strictly positive.
\<close>

theorem C8_series_shape:
  assumes "0 < tf"
  shows "length (data (generate_mock_data rnd uuid now a strat tf capital)) = nat tf
       \<and> map day (data (generate_mock_data rnd uuid now a strat tf capital)) = [1 .. tf]
       \<and> (\<forall>k. k < nat tf \<longrightarrow>
             day (data (generate_mock_data rnd uuid now a strat tf capital) ! k) = int k + 1
           \<and> (sma20 (data (generate_mock_data rnd uuid now a strat tf capital) ! k) \<noteq> None
                \<longleftrightarrow> 20 \<le> day (data (generate_mock_data rnd uuid now a strat tf capital) ! k))
           \<and> (ema10 (data (generate_mock_data rnd uuid now a strat tf capital) ! k) \<noteq> None
                \<longleftrightarrow> 10 \<le> day (data (generate_mock_data rnd uuid now a strat tf capital) ! k))
           \<and> 0 < price (data (generate_mock_data rnd uuid now a strat tf capital) ! k))"
proof -
  define dat where "dat = data (generate_mock_data rnd uuid now a strat tf capital)"
  define v where "v = volatility_of a"
  define p0 where "p0 = start_price_of a"
  have ok: "loop_state_ok rnd v p0 (nat tf) (raw_price rnd v p0 (nat tf), dat)"
    unfolding dat_def v_def p0_def by (rule generate_mock_data_series)
  have len: "length dat = nat tf" using ok by (simp add: loop_state_ok_def)
  have pt: "\<And>k. k < nat tf \<Longrightarrow>
             day (dat ! k) = int k + 1
           \<and> (sma20 (dat ! k) \<noteq> None \<longleftrightarrow> 20 \<le> day (dat ! k))
           \<and> (ema10 (dat ! k) \<noteq> None \<longleftrightarrow> 10 \<le> day (dat ! k))
           \<and> 0 < price (dat ! k)"
  proof -
    fix k assume k: "k < nat tf"
    have d: "day (dat ! k) = int k + 1"
      and p: "price (dat ! k) = round2 (raw_price rnd v p0 (Suc k))"
      and s: "sma20 (dat ! k) \<noteq> None \<longleftrightarrow> 19 \<le> k"
      and e: "ema10 (dat ! k) \<noteq> None \<longleftrightarrow> 9 \<le> k"
      using ok k by (simp_all add: loop_state_ok_def)
    have "1 / 10 \<le> price (dat ! k)"
      unfolding p by (rule round2_floor_price) (rule raw_price_floor)
    then have "0 < price (dat ! k)" by linarith
    moreover have "19 \<le> k \<longleftrightarrow> 20 \<le> day (dat ! k)" using d by auto
    moreover have "9 \<le> k \<longleftrightarrow> 10 \<le> day (dat ! k)" using d by auto
    ultimately show "day (dat ! k) = int k + 1
           \<and> (sma20 (dat ! k) \<noteq> None \<longleftrightarrow> 20 \<le> day (dat ! k))
           \<and> (ema10 (dat ! k) \<noteq> None \<longleftrightarrow> 10 \<le> day (dat ! k))
           \<and> 0 < price (dat ! k)"
      using d s e by simp
  qed
  have days: "map day dat = [1 .. tf]"
  proof (rule nth_equalityI)
    show "length (map day dat) = length [1 .. tf]" using len assms by simp
  next
    fix i assume "i < length (map day dat)"
    then have i: "i < nat tf" using len by simp
    then have "map day dat ! i = int i + 1" using pt [OF i] len by simp
    moreover have "[1 .. tf] ! i = 1 + int i" using i by (intro nth_upto) linarith
    ultimately show "map day dat ! i = [1 .. tf] ! i" by simp
  qed
  show ?thesis unfolding dat_def [symmetric] using len days pt by blast
qed

theorem C8_series_shape_witness:
  "(0::int) < 2
   \<and> length (data (generate_mock_data (\<lambda>k. 9 / 10) ''id'' ''now'' ''BTC'' ''macd'' 2 10000)) = 2
   \<and> map day (data (generate_mock_data (\<lambda>k. 9 / 10) ''id'' ''now'' ''BTC'' ''macd'' 2 10000))
       = [1, 2]
   \<and> sma20 (data (generate_mock_data (\<lambda>k. 9 / 10) ''id'' ''now'' ''BTC'' ''macd'' 2 10000) ! 0)
       = None
   \<and> 0 < price (data (generate_mock_data (\<lambda>k. 9 / 10) ''id'' ''now'' ''BTC'' ''macd'' 2 10000) ! 0)"
proof -
  have h: "(0::int) < 2" by simp
  have k: "(0::nat) < nat 2" by simp
  have u: "[1 .. 2 :: int] = [1, 2]" by (simp add: upto_rec1)
  note c = C8_series_shape [OF h, of "\<lambda>k. 9 / 10" "''id''" "''now''" "''BTC''" "''macd''" 10000]
  from c have "length (data (generate_mock_data (\<lambda>k. 9 / 10) ''id'' ''now'' ''BTC'' ''macd'' 2 10000)) = 2"
    by simp
  moreover from c have "map day (data (generate_mock_data (\<lambda>k. 9 / 10) ''id'' ''now'' ''BTC'' ''macd'' 2 10000))
       = [1, 2]" by (simp only: u)
  moreover from c k have "sma20 (data (generate_mock_data (\<lambda>k. 9 / 10) ''id'' ''now'' ''BTC'' ''macd'' 2 10000) ! 0)
       = None" by fastforce
  moreover from c k have "0 < price (data (generate_mock_data (\<lambda>k. 9 / 10) ''id'' ''now'' ''BTC'' ''macd'' 2 10000) ! 0)"
    by blast
  ultimately show ?thesis using h by blast
qed

lemma raw_price_constant: "raw_price (\<lambda>k. 1 / 2) v 100 k = 100"
  by (induction k) simp_all

lemma round2_100: "round2 100 = 100"
  by (simp add: round2_def round_half_even_def)

lemma round2_95: "round2 95 = 95"
  by (simp add: round2_def round_half_even_def)

lemma round2_90: "round2 90 = 90"
  by (simp add: round2_def round_half_even_def)

lemma constant_window_sum:
  assumes "\<And>j. j < b \<Longrightarrow> f j = (100::real)"
  shows "sum_list (map f [a ..< b]) = real (b - a) * 100"
proof -
  have "map f [a ..< b] = map (\<lambda>j. 100) [a ..< b]"
    using assms by (intro map_cong) simp_all
  also have "\<dots> = replicate (b - a) 100" by (simp add: map_replicate_const)
  finally show ?thesis by (simp add: sum_list_replicate)
qed

text \<open>
  Claim C2 at a series of constant price: with every draw equal to \<open>1/2\<close> the price of
  the default asset stays at 100 on all of 21 days, so the mean of the 20 (or 10)
  prices before day 21 is 100.  The generator records an SMA of 95 and an EMA of 90
  for day 21: it adds up the 19 (resp. 9) recorded prices before the point and divides
  by 20 (resp. 10).
\<close>

theorem C2_constant_series_indicators:
  "map price (data (generate_mock_data (\<lambda>k. 1 / 2) ''id'' ''now'' ''AAPL'' ''macd'' 21 10000))
     = replicate 21 100
   \<and> day (data (generate_mock_data (\<lambda>k. 1 / 2) ''id'' ''now'' ''AAPL'' ''macd'' 21 10000) ! 20) = 21
   \<and> sma20 (data (generate_mock_data (\<lambda>k. 1 / 2) ''id'' ''now'' ''AAPL'' ''macd'' 21 10000) ! 20)
     = Some 95
   \<and> ema10 (data (generate_mock_data (\<lambda>k. 1 / 2) ''id'' ''now'' ''AAPL'' ''macd'' 21 10000) ! 20)
     = Some 90"
proof -
  define dat where
    "dat = data (generate_mock_data (\<lambda>k. 1 / 2) ''id'' ''now'' ''AAPL'' ''macd'' 21 10000)"
  have v: "volatility_of ''AAPL'' = 0.02" by (simp add: volatility_of_def)
  have p0: "start_price_of ''AAPL'' = 100" by (simp add: start_price_of_def)
  have "loop_state_ok (\<lambda>k. 1 / 2) 0.02 100 (nat 21)
          (raw_price (\<lambda>k. 1 / 2) 0.02 100 (nat 21), dat)"
    unfolding dat_def
    using generate_mock_data_series [of "\<lambda>k. 1 / 2" "''AAPL''" 21 "''id''" "''now''" "''macd''" 10000]
    by (simp only: v p0)
  then have ok: "loop_state_ok (\<lambda>k. 1 / 2) 0.02 100 21 (100, dat)"
    by (simp only: raw_price_constant) simp
  have len: "length dat = 21" using ok by (simp add: loop_state_ok_def)
  have pr: "\<And>k. k < 21 \<Longrightarrow> price (dat ! k) = 100"
    using ok by (simp add: loop_state_ok_def raw_price_constant round2_100 del: raw_price.simps)
  have prices: "map price dat = replicate 21 100"
  proof (rule nth_equalityI)
    show "length (map price dat) = length (replicate 21 (100::real))" using len by simp
  next
    fix i assume "i < length (map price dat)"
    then have "i < 21" using len by simp
    then show "map price dat ! i = replicate 21 100 ! i" using pr len by simp
  qed
  have d: "day (dat ! 20) = 21" using ok by (simp add: loop_state_ok_def)
  have s19: "sum_list (map (\<lambda>j. price (dat ! j)) [20 - 19 ..< 20]) = real (20 - (20 - 19)) * 100"
    by (rule constant_window_sum) (simp add: pr)
  have s9: "sum_list (map (\<lambda>j. price (dat ! j)) [20 - 9 ..< 20]) = real (20 - (20 - 9)) * 100"
    by (rule constant_window_sum) (simp add: pr)
  have "sma20 (dat ! 20)
          = Some (round2 (sum_list (map (\<lambda>j. price (dat ! j)) [20 - 19 ..< 20]) / 20))"
    using ok by (simp add: loop_state_ok_def)
  then have s: "sma20 (dat ! 20) = Some 95" by (simp only: s19) (simp add: round2_95)
  have "ema10 (dat ! 20)
          = Some (round2 (sum_list (map (\<lambda>j. price (dat ! j)) [20 - 9 ..< 20]) / 10))"
    using ok by (simp add: loop_state_ok_def)
  then have e: "ema10 (dat ! 20) = Some 90" by (simp only: s9) (simp add: round2_90)
  show ?thesis unfolding dat_def [symmetric] using prices d s e by blast
qed

lemma generate_mock_data_capital:
  "final_capital (generate_mock_data rnd uuid now a strat tf capital)
     = round2 (capital * (1 + performance_of rnd (nat tf) strat))"
  by (simp add: generate_mock_data_def Let_def split: prod.split)

lemma generate_mock_data_roi:
  "roi (generate_mock_data rnd uuid now a strat tf capital)
     = round2 (performance_of rnd (nat tf) strat * 100)"
  by (simp add: generate_mock_data_def Let_def split: prod.split)

lemma uniform_bounds:
  assumes "lo \<le> hi" and "0 \<le> u" and "u < 1"
  shows "lo \<le> uniform lo hi u" and "uniform lo hi u \<le> hi"
proof -
  have a: "0 \<le> (hi - lo) * u" using assms by simp
  have "(hi - lo) * u \<le> (hi - lo) * 1"
    using assms by (intro mult_left_mono) simp_all
  then have b: "(hi - lo) * u \<le> hi - lo" by simp
  show "lo \<le> uniform lo hi u" using a by (simp add: uniform_def)
  show "uniform lo hi u \<le> hi" using b by (simp add: uniform_def)
qed

lemma performance_of_table:
  "performance_of rnd n strat
     = (case strategy_range strat of
          Some (lo, hi, j) \<Rightarrow> uniform lo hi (rnd (n + j))
        | None \<Rightarrow> 0.1)"
  by (simp add: performance_of_def strategy_performance_def strategy_range_def)

lemma strategy_range_ordered:
  "strategy_range strat = Some (lo, hi, j) \<Longrightarrow> lo \<le> hi"
  by (auto simp add: strategy_range_def split: if_splits)

text \<open>
  Claim C9, as the code has it: the final capital and the ROI are computed from one
  performance value and rounded to 2 decimals; for the five strategies of the table the
  performance is a uniform draw from the strategy's range and lies within it; every
  other strategy gets the fixed performance 0.1, with no draw.
\<close>

theorem C9_performance_draw:
  assumes "\<forall>k. 0 \<le> rnd k \<and> rnd k < 1"
  shows "final_capital (generate_mock_data rnd uuid now a strat tf capital)
           = round2 (capital * (1 + performance_of rnd (nat tf) strat))
       \<and> roi (generate_mock_data rnd uuid now a strat tf capital)
           = round2 (performance_of rnd (nat tf) strat * 100)
       \<and> (case strategy_range strat of
            Some (lo, hi, j) \<Rightarrow>
              performance_of rnd (nat tf) strat = uniform lo hi (rnd (nat tf + j))
              \<and> lo \<le> performance_of rnd (nat tf) strat
              \<and> performance_of rnd (nat tf) strat \<le> hi
          | None \<Rightarrow> performance_of rnd (nat tf) strat = 0.1)"
proof -
  have "case strategy_range strat of
            Some (lo, hi, j) \<Rightarrow>
              performance_of rnd (nat tf) strat = uniform lo hi (rnd (nat tf + j))
              \<and> lo \<le> performance_of rnd (nat tf) strat
              \<and> performance_of rnd (nat tf) strat \<le> hi
          | None \<Rightarrow> performance_of rnd (nat tf) strat = 0.1"
  proof (cases "strategy_range strat")
    case None
    then show ?thesis by (simp add: performance_of_table)
  next
    case (Some t)
    obtain lo hi j where t: "t = (lo, hi, j)" by (cases t) auto
    have le: "lo \<le> hi" using Some t strategy_range_ordered by blast
    have u: "0 \<le> rnd (nat tf + j)" "rnd (nat tf + j) < 1" using assms by simp_all
    show ?thesis
      using uniform_bounds [OF le u] by (simp add: Some t performance_of_table)
  qed
  then show ?thesis
    by (simp only: generate_mock_data_capital generate_mock_data_roi simp_thms)
qed

theorem C9_performance_draw_witness:
  "(\<forall>k. (0::real) \<le> (\<lambda>k. 9 / 10) k \<and> (\<lambda>k. 9 / 10 :: real) k < 1)
   \<and> roi (generate_mock_data (\<lambda>k. 9 / 10) ''id'' ''now'' ''BTC'' ''macd'' 2 10000) = 30
   \<and> final_capital (generate_mock_data (\<lambda>k. 9 / 10) ''id'' ''now'' ''BTC'' ''macd'' 2 10000)
       = 13000"
proof -
  have h: "\<forall>k. (0::real) \<le> (\<lambda>k. 9 / 10) k \<and> (\<lambda>k. 9 / 10 :: real) k < 1" by simp
  have sr: "strategy_range ''macd'' = Some (- 0.15, 0.35, 2)"
    by (simp add: strategy_range_def)
  note c = C9_performance_draw [OF h, of "''id''" "''now''" "''BTC''" "''macd''" 2 10000]
  have p: "performance_of (\<lambda>k. 9 / 10) (nat 2) ''macd'' = 3 / 10"
    using c by (simp add: sr uniform_def)
  have "roi (generate_mock_data (\<lambda>k. 9 / 10) ''id'' ''now'' ''BTC'' ''macd'' 2 10000)
          = round2 (3 / 10 * 100)"
    using c by (simp only: p)
  moreover have "final_capital (generate_mock_data (\<lambda>k. 9 / 10) ''id'' ''now'' ''BTC'' ''macd'' 2 10000)
          = round2 (10000 * (1 + 3 / 10))"
    using c by (simp only: p)
  moreover have "round2 (3 / 10 * 100) = 30" by (simp add: round2_def round_half_even_def)
  moreover have "round2 (10000 * (1 + 3 / 10)) = 13000"
    by (simp add: round2_def round_half_even_def)
  ultimately show ?thesis using h by simp
qed

text \<open>
  Claim C9 as stated fails for a strategy outside the table: whatever the random
  source returns, the performance of \<open>buy_and_hold\<close> is 0.1, the ROI 10 and the final
  capital 11000.  Nothing is drawn from a range.
\<close>

theorem C9_unknown_strategy_counterexample:
  "roi (generate_mock_data (\<lambda>k. 0) ''id'' ''now'' ''AAPL'' ''buy_and_hold'' 1 10000) = 10
   \<and> roi (generate_mock_data (\<lambda>k. 9 / 10) ''id'' ''now'' ''AAPL'' ''buy_and_hold'' 1 10000) = 10
   \<and> final_capital (generate_mock_data (\<lambda>k. 0) ''id'' ''now'' ''AAPL'' ''buy_and_hold'' 1 10000)
       = 11000
   \<and> final_capital (generate_mock_data (\<lambda>k. 9 / 10) ''id'' ''now'' ''AAPL'' ''buy_and_hold'' 1 10000)
       = 11000"
proof -
  have sr: "strategy_range ''buy_and_hold'' = None" by (simp add: strategy_range_def)
  have p: "\<And>rnd. performance_of rnd (nat 1) ''buy_and_hold'' = 1 / 10"
    by (simp add: performance_of_table sr)
  have r: "round2 (1 / 10 * 100) = 10" by (simp add: round2_def round_half_even_def)
  have f: "round2 (10000 * (1 + 1 / 10)) = 11000" by (simp add: round2_def round_half_even_def)
  show ?thesis
    by (simp only: generate_mock_data_roi generate_mock_data_capital p r f simp_thms)
qed

section \<open>Properties of the feedback generator\<close>

lemma split_from_not_empty: "split_from sep cur s \<noteq> []"
  by (induction sep cur s rule: split_from.induct) auto

lemma py_split_not_empty: "py_split s sep \<noteq> []"
  by (simp add: py_split_def split_from_not_empty)

lemma extract_loop_closed_form:
  "extract_loop sections (kps, sgs)
     = (kps @ concat (map section_items
                 (filter (\<lambda>s. is_substring ''key point'' (lower s)) sections)),
        sgs @ concat (map section_items
                 (filter (\<lambda>s. \<not> is_substring ''key point'' (lower s)
                               \<and> (is_substring ''improvement'' (lower s)
                                    \<or> is_substring ''suggestion'' (lower s))) sections)))"
proof (induction sections arbitrary: kps sgs)
  case Nil
  show ?case by simp
next
  case (Cons s rest)
  show ?case
  proof (cases "is_substring ''key point'' (lower s)")
    case True
    then show ?thesis by (simp add: Cons.IH)
  next
    case False
    then show ?thesis
      by (cases "is_substring ''improvement'' (lower s) \<or> is_substring ''suggestion'' (lower s)")
         (simp_all add: Cons.IH)
  qed
qed

text \<open>
  Claim C3, as the code has it.  The narrative is the first section of the response,
  whether or not it is a heading section.  A section that contains \<open>key point\<close> (in any
  case) contributes to the key points, any other section that contains \<open>improvement\<close>
  or \<open>suggestion\<close> contributes to the suggestions; what a section contributes is every
  line after its first that is not blank, with the characters \<open>-\<close> and space removed
  from both ends.  An empty list is replaced by its default, and the lists are cut to 5
  and 3 items.  Both provider tiers parse this way.
\<close>

theorem C3_parse_response:
  "feedback (parse_response content) = hd (py_split content ''\<newline>\<newline>'')
   \<and> key_points (parse_response content)
       = take 5
          (let items = concat (map section_items
                 (filter (\<lambda>s. is_substring ''key point'' (lower s))
                    (py_split content ''\<newline>\<newline>'')))
           in if items = [] then default_key_points else items)
   \<and> improvement_suggestions (parse_response content)
       = take 3
          (let items = concat (map section_items
                 (filter (\<lambda>s. \<not> is_substring ''key point'' (lower s)
                               \<and> (is_substring ''improvement'' (lower s)
                                    \<or> is_substring ''suggestion'' (lower s)))
                    (py_split content ''\<newline>\<newline>'')))
           in if items = [] then default_suggestions else items)
   \<and> section_items sect
       = map (strip_chars ''- '')
           (filter (\<lambda>p. py_strip p \<noteq> []) (tl (py_split sect ''\<newline>'')))
   \<and> get_deepseek_feedback (Inr content) = Inr (parse_response content)
   \<and> get_openai_feedback (Inr content) = Inr (parse_response content)"
proof -
  define sections where "sections = py_split content ''\<newline>\<newline>''"
  have ne: "sections \<noteq> []" unfolding sections_def by (rule py_split_not_empty)
  then have fb: "(if length sections > 0 then sections ! 0 else '''') = hd sections"
    by (simp add: hd_conv_nth)
  have lp: "extract_loop sections ([], [])
     = (concat (map section_items
                 (filter (\<lambda>s. is_substring ''key point'' (lower s)) sections)),
        concat (map section_items
                 (filter (\<lambda>s. \<not> is_substring ''key point'' (lower s)
                               \<and> (is_substring ''improvement'' (lower s)
                                    \<or> is_substring ''suggestion'' (lower s))) sections)))"
    using extract_loop_closed_form [of sections "[]" "[]"] by simp
  have pr: "parse_response content
     = (let (kps, sgs) = extract_loop sections ([], [])
        in \<lparr> feedback = hd sections,
             key_points = take 5 (if kps = [] then default_key_points else kps),
             improvement_suggestions = take 3 (if sgs = [] then default_suggestions else sgs) \<rparr>)"
    unfolding parse_response_def sections_def [symmetric] Let_def fb by simp
  have a: "feedback (parse_response content) = hd sections"
    unfolding pr lp by simp
  have b: "key_points (parse_response content)
       = take 5
          (let items = concat (map section_items
                 (filter (\<lambda>s. is_substring ''key point'' (lower s)) sections))
           in if items = [] then default_key_points else items)"
    unfolding pr lp by (simp add: Let_def)
  have c: "improvement_suggestions (parse_response content)
       = take 3
          (let items = concat (map section_items
                 (filter (\<lambda>s. \<not> is_substring ''key point'' (lower s)
                               \<and> (is_substring ''improvement'' (lower s)
                                    \<or> is_substring ''suggestion'' (lower s))) sections))
           in if items = [] then default_suggestions else items)"
    unfolding pr lp by (simp add: Let_def)
  have d: "section_items sect
       = map (strip_chars ''- '')
           (filter (\<lambda>p. py_strip p \<noteq> []) (tl (py_split sect ''\<newline>'')))"
    by (simp add: section_items_def)
  have e: "get_deepseek_feedback (Inr content) = Inr (parse_response content)"
    by (simp add: get_deepseek_feedback_def)
  have f: "get_openai_feedback (Inr content) = Inr (parse_response content)"
    by (simp add: get_openai_feedback_def)
  show ?thesis using a b c d e f unfolding sections_def by blast
qed

text \<open>
  Claim C3 as stated fails on a response that opens with its key points: the narrative
  is that first section, not the first section without a heading; the line \<open>Beta\<close>,
  which is no bullet, becomes a key point; and \<open>- Alpha -\<close> loses the dash at its end
  too.
\<close>

theorem C3_first_section_counterexample:
  "parse_response
     ''Key points:\<newline>- Alpha -\<newline>Beta\<newline>\<newline>The strategy did fine.''
   = \<lparr> feedback = ''Key points:\<newline>- Alpha -\<newline>Beta'',
       key_points = [''Alpha'', ''Beta''],
       improvement_suggestions =
         [''Consider backtesting with different parameters'',
          ''Combine with other indicators for confirmation''] \<rparr>"
  by code_simp

lemma is_substring_here: "is_substring x (x @ post)"
proof (cases "x @ post")
  case Nil
  then show ?thesis by simp
next
  case (Cons c cs)
  have "take (length x) (x @ post) = x" by simp
  then show ?thesis by (simp add: Cons)
qed

lemma is_substring_append: "is_substring x (pre @ x @ post)"
  by (induction pre) (simp_all add: is_substring_here)

lemma known_template_form:
  assumes "map_of (strategy_templates a tf) strat = Some t"
  shows "(\<exists>pre post. feedback t = pre @ applied_context a tf @ post)
         \<and> length (key_points t) = 4 \<and> length (improvement_suggestions t) = 3"
proof -
  consider (sma) "strat = ''sma_crossover''" | (ema) "strat = ''ema_crossover''"
    | (macd) "strat = ''macd''" | (rsi) "strat = ''rsi''" | (bollinger) "strat = ''bollinger''"
    using assms by (auto simp add: strategy_templates_def split: if_splits)
  then show ?thesis
  proof cases
    case sma
    have "\<exists>post. feedback t
            = ''This simulation demonstrates a Simple Moving Average (SMA) Crossover''
              @ applied_context a tf @ post"
      using assms sma by (auto simp add: strategy_templates_def applied_context_def)
    moreover have "length (key_points t) = 4 \<and> length (improvement_suggestions t) = 3"
      using assms sma by (auto simp add: strategy_templates_def)
    ultimately show ?thesis by blast
  next
    case ema
    have "\<exists>post. feedback t
            = ''This simulation demonstrates an Exponential Moving Average (EMA) Crossover''
              @ applied_context a tf @ post"
      using assms ema by (auto simp add: strategy_templates_def applied_context_def)
    moreover have "length (key_points t) = 4 \<and> length (improvement_suggestions t) = 3"
      using assms ema by (auto simp add: strategy_templates_def)
    ultimately show ?thesis by blast
  next
    case macd
    have "\<exists>post. feedback t
            = ''This simulation demonstrates a Moving Average Convergence Divergence (MACD)''
              @ applied_context a tf @ post"
      using assms macd by (auto simp add: strategy_templates_def applied_context_def)
    moreover have "length (key_points t) = 4 \<and> length (improvement_suggestions t) = 3"
      using assms macd by (auto simp add: strategy_templates_def)
    ultimately show ?thesis by blast
  next
    case rsi
    have "\<exists>post. feedback t
            = ''This simulation demonstrates a Relative Strength Index (RSI)''
              @ applied_context a tf @ post"
      using assms rsi by (auto simp add: strategy_templates_def applied_context_def)
    moreover have "length (key_points t) = 4 \<and> length (improvement_suggestions t) = 3"
      using assms rsi by (auto simp add: strategy_templates_def)
    ultimately show ?thesis by blast
  next
    case bollinger
    have "\<exists>post. feedback t
            = ''This simulation demonstrates a Bollinger Bands''
              @ applied_context a tf @ post"
      using assms bollinger by (auto simp add: strategy_templates_def applied_context_def)
    moreover have "length (key_points t) = 4 \<and> length (improvement_suggestions t) = 3"
      using assms bollinger by (auto simp add: strategy_templates_def)
    ultimately show ?thesis by blast
  qed
qed

lemma default_template_form:
  "(\<exists>post. feedback (default_template frepr sn a tf performance)
            = (''This simulation demonstrates a '' @ sn) @ applied_context a tf @ post)
   \<and> length (key_points (default_template frepr sn a tf performance)) = 4
   \<and> length (improvement_suggestions (default_template frepr sn a tf performance)) = 3"
  by (simp add: default_template_def applied_context_def)

lemma unknown_strategy_name:
  assumes "map_of (strategy_templates a tf) strat = None"
  shows "map_of strategy_names strat = None"
  using assms by (auto simp add: strategy_templates_def strategy_names_def split: if_splits)

lemma template_for_form:
  "(\<exists>pre post. feedback (template_for frepr a strat tf performance)
                = pre @ applied_context a tf @ post)
   \<and> length (key_points (template_for frepr a strat tf performance)) = 4
   \<and> length (improvement_suggestions (template_for frepr a strat tf performance)) = 3"
proof (cases "map_of (strategy_templates a tf) strat")
  case None
  define sn where "sn = (case map_of strategy_names strat of Some n \<Rightarrow> n | None \<Rightarrow> strat)"
  have eq: "template_for frepr a strat tf performance
              = default_template frepr sn a tf performance"
    by (simp add: template_for_def None sn_def)
  have "\<exists>pre post. feedback (default_template frepr sn a tf performance)
                = pre @ applied_context a tf @ post"
    using default_template_form [of frepr sn a tf performance] by blast
  then show ?thesis
    unfolding eq using default_template_form [of frepr sn a tf performance] by blast
next
  case (Some t)
  then show ?thesis using known_template_form [OF Some] by (simp add: template_for_def)
qed

lemma template_for_unknown:
  assumes "map_of (strategy_templates a tf) strat = None"
  shows "\<exists>post. feedback (template_for frepr a strat tf performance)
            = ''This simulation demonstrates a '' @ strat @ post"
proof -
  have sn: "map_of strategy_names strat = None" using assms by (rule unknown_strategy_name)
  obtain post where "feedback (default_template frepr strat a tf performance)
            = (''This simulation demonstrates a '' @ strat) @ applied_context a tf @ post"
    using default_template_form [of frepr strat a tf performance] by blast
  then show ?thesis using assms sn by (simp add: template_for_def)
qed

lemma get_template_feedback_float:
  assumes "roi_is_float performance"
  shows "\<exists>sentence. get_template_feedback frepr a strat tf performance
           = Inr \<lparr> feedback = feedback (template_for frepr a strat tf performance)
                                @ '' '' @ sentence,
                   key_points = key_points (template_for frepr a strat tf performance),
                   improvement_suggestions =
                     improvement_suggestions (template_for frepr a strat tf performance) \<rparr>"
proof (cases "performance ''roi''")
  case None
  then have "dict_get performance ''roi'' (PInt 0) = PInt 0" by (simp add: dict_get_def)
  then show ?thesis
    by (auto simp add: get_template_feedback_def Let_def split: bool.split)
next
  case (Some v)
  then obtain x where "v = PFloat x"
    using assms by (cases v) (simp_all add: roi_is_float_def)
  then have "dict_get performance ''roi'' (PInt 0) = PFloat x"
    using Some by (simp add: dict_get_def)
  then show ?thesis
    by (auto simp add: get_template_feedback_def Let_def split: bool.split)
qed

lemma template_tier_reached:
  assumes "DEEPSEEK_API_KEY settings = [] \<or> isl deepseek_reply"
    and "OPENAI_API_KEY settings = [] \<or> isl openai_reply"
  shows "get_educational_feedback settings deepseek_reply openai_reply frepr a strat tf performance
           = (case get_template_feedback frepr a strat tf performance of
                Inr r \<Rightarrow> r | Inl e \<Rightarrow> final_fallback)"
proof -
  have t1: "(if DEEPSEEK_API_KEY settings \<noteq> []
             then (case get_deepseek_feedback deepseek_reply of
                     Inr r \<Rightarrow> Some r | Inl e \<Rightarrow> None)
             else None) = None"
    using assms(1) by (cases deepseek_reply) (auto simp add: get_deepseek_feedback_def)
  have t2: "(if OPENAI_API_KEY settings \<noteq> []
             then (case get_openai_feedback openai_reply of
                     Inr r \<Rightarrow> Some r | Inl e \<Rightarrow> None)
             else None) = None"
    using assms(2) by (cases openai_reply) (auto simp add: get_openai_feedback_def)
  show ?thesis unfolding get_educational_feedback_def Let_def t1 t2 by simp
qed

text \<open>
  Claim C4: with both providers unconfigured or failing, and \<open>performance['roi']\<close> a
  float as the contract types it, or absent, the result returned to the caller is the
  result of the template tier, with at most 5 key points, at most 3 suggestions and a
  non-empty narrative.  The narrative names the asset, in the sentence on the strategy
  applied to the asset over the timeframe, and a strategy that the template bank does
  not hold gets the generic template, whose narrative names the strategy itself.  No
  exception reaches the caller.
\<close>

theorem C4_template_tier:
  assumes "DEEPSEEK_API_KEY settings = [] \<or> isl deepseek_reply"
    and "OPENAI_API_KEY settings = [] \<or> isl openai_reply"
    and "roi_is_float performance"
  shows "\<exists>r. get_educational_feedback settings deepseek_reply openai_reply frepr a strat tf
                performance = r
           \<and> get_template_feedback frepr a strat tf performance = Inr r
           \<and> length (key_points r) \<le> 5 \<and> length (improvement_suggestions r) \<le> 3
           \<and> feedback r \<noteq> []
           \<and> is_substring a (feedback r)
           \<and> is_substring (applied_context a tf) (feedback r)
           \<and> (strat \<in> set (map fst (strategy_templates a tf))
                \<or> is_substring strat (feedback r))"
proof -
  define t where "t = template_for frepr a strat tf performance"
  obtain sentence where
    g: "get_template_feedback frepr a strat tf performance
          = Inr \<lparr> feedback = feedback t @ '' '' @ sentence, key_points = key_points t,
                  improvement_suggestions = improvement_suggestions t \<rparr>"
    unfolding t_def using get_template_feedback_float [OF assms(3)] by blast
  define r where "r = \<lparr> feedback = feedback t @ '' '' @ sentence, key_points = key_points t,
                  improvement_suggestions = improvement_suggestions t \<rparr>"
  have res: "get_educational_feedback settings deepseek_reply openai_reply frepr a strat tf
          performance = r"
    using template_tier_reached [OF assms(1) assms(2)] g by (simp add: r_def)
  obtain pre post where f: "feedback t = pre @ applied_context a tf @ post"
    and k: "length (key_points t) = 4" and s: "length (improvement_suggestions t) = 3"
    unfolding t_def using template_for_form [of frepr a strat tf performance] by blast
  have fr: "feedback r = pre @ applied_context a tf @ (post @ '' '' @ sentence)"
    by (simp add: r_def f)
  have ctx: "is_substring (applied_context a tf) (feedback r)"
    unfolding fr by (rule is_substring_append)
  have "feedback r = (pre @ '' strategy applied to '') @ a
                       @ ('' over '' @ str_int tf @ '' days.'' @ post @ '' '' @ sentence)"
    by (simp add: fr applied_context_def)
  then have ast: "is_substring a (feedback r)"
    using is_substring_append [of a "pre @ '' strategy applied to ''"] by simp
  have ne: "feedback r \<noteq> []" by (simp add: fr applied_context_def)
  have st: "strat \<in> set (map fst (strategy_templates a tf)) \<or> is_substring strat (feedback r)"
  proof (cases "map_of (strategy_templates a tf) strat")
    case None
    obtain post' where "feedback t = ''This simulation demonstrates a '' @ strat @ post'"
      unfolding t_def using template_for_unknown [OF None] by blast
    then have "feedback r
                 = ''This simulation demonstrates a '' @ strat @ (post' @ '' '' @ sentence)"
      by (simp add: r_def)
    then have "is_substring strat (feedback r)"
      using is_substring_append [of strat "''This simulation demonstrates a ''"] by simp
    then show ?thesis by simp
  next
    case (Some u)
    then have "strat \<in> fst ` set (strategy_templates a tf)"
      using map_of_SomeD [OF Some] by force
    then show ?thesis by simp
  qed
  have "length (key_points r) \<le> 5" "length (improvement_suggestions r) \<le> 3"
    by (simp_all add: r_def k s)
  moreover have "get_template_feedback frepr a strat tf performance = Inr r"
    using g by (simp add: r_def)
  ultimately show ?thesis using res ne ast ctx st by simp
qed

theorem C4_template_tier_witness:
  "(DEEPSEEK_API_KEY \<lparr> DEEPSEEK_API_KEY = '''', OPENAI_API_KEY = ''key'' \<rparr> = []
      \<or> isl (Inl ProviderError :: error + string))
   \<and> (OPENAI_API_KEY \<lparr> DEEPSEEK_API_KEY = '''', OPENAI_API_KEY = ''key'' \<rparr> = []
      \<or> isl (Inl ProviderError :: error + string))
   \<and> roi_is_float [''roi'' \<mapsto> PFloat 20]
   \<and> is_substring ''BTC''
        (feedback (get_educational_feedback \<lparr> DEEPSEEK_API_KEY = '''', OPENAI_API_KEY = ''key'' \<rparr>
           (Inl ProviderError) (Inl ProviderError) (\<lambda>x. ''20.0'') ''BTC'' ''hodl'' 30
           [''roi'' \<mapsto> PFloat 20]))
   \<and> is_substring ''hodl''
        (feedback (get_educational_feedback \<lparr> DEEPSEEK_API_KEY = '''', OPENAI_API_KEY = ''key'' \<rparr>
           (Inl ProviderError) (Inl ProviderError) (\<lambda>x. ''20.0'') ''BTC'' ''hodl'' 30
           [''roi'' \<mapsto> PFloat 20]))"
proof -
  have h1: "DEEPSEEK_API_KEY \<lparr> DEEPSEEK_API_KEY = '''', OPENAI_API_KEY = ''key'' \<rparr> = []
      \<or> isl (Inl ProviderError :: error + string)" by simp
  have h2: "OPENAI_API_KEY \<lparr> DEEPSEEK_API_KEY = '''', OPENAI_API_KEY = ''key'' \<rparr> = []
      \<or> isl (Inl ProviderError :: error + string)" by simp
  have h3: "roi_is_float [''roi'' \<mapsto> PFloat 20]" by (simp add: roi_is_float_def)
  have u: "''hodl'' \<notin> set (map fst (strategy_templates ''BTC'' 30))"
    by (simp add: strategy_templates_def)
  show ?thesis
    using h1 h2 h3 u
      C4_template_tier [OF h1 h2 h3, of "\<lambda>x. ''20.0''" "''BTC''" "''hodl''" 30]
    by auto
qed

lemma str_int_zero: "str_int 0 = ''0''"
  by code_simp

lemma feedback_negative_zero:
  "feedback_negative frepr (PInt 0)
     = ''The strategy resulted in a negative ROI of 0%. This provides a valuable ''
       @ ''learning opportunity to understand what factors contributed to the ''
       @ ''underperformance.''"
  by (simp add: feedback_negative_def str_int_zero)

text \<open>
  Claim C10: when the performance dictionary has no key \<open>roi\<close>, the template tier takes
  the ROI to be 0, returns the strategy's template with 4 key points and 3 suggestions,
  and ends the narrative with the sentence on a negative ROI of 0% as a learning
  opportunity.
\<close>

theorem C10_missing_roi:
  assumes "performance ''roi'' = None"
  shows "dict_get performance ''roi'' (PInt 0) = PInt 0
       \<and> get_template_feedback frepr a strat tf performance
           = Inr \<lparr> feedback = feedback (template_for frepr a strat tf performance)
                     @ '' The strategy resulted in a negative ROI of 0%. This provides a ''
                     @ ''valuable learning opportunity to understand what factors ''
                     @ ''contributed to the underperformance.'',
                   key_points = key_points (template_for frepr a strat tf performance),
                   improvement_suggestions =
                     improvement_suggestions (template_for frepr a strat tf performance) \<rparr>
       \<and> length (key_points (template_for frepr a strat tf performance)) = 4
       \<and> length (improvement_suggestions (template_for frepr a strat tf performance)) = 3
       \<and> feedback (template_for frepr a strat tf performance) \<noteq> []"
proof -
  have z: "dict_get performance ''roi'' (PInt 0) = PInt 0"
    using assms by (simp add: dict_get_def)
  have g: "get_template_feedback frepr a strat tf performance
           = Inr \<lparr> feedback = feedback (template_for frepr a strat tf performance)
                     @ '' '' @ feedback_negative frepr (PInt 0),
                   key_points = key_points (template_for frepr a strat tf performance),
                   improvement_suggestions =
                     improvement_suggestions (template_for frepr a strat tf performance) \<rparr>"
    by (simp add: get_template_feedback_def Let_def z)
  obtain pre post where
    f: "feedback (template_for frepr a strat tf performance) = pre @ applied_context a tf @ post"
    using template_for_form [of frepr a strat tf performance] by blast
  have ne: "feedback (template_for frepr a strat tf performance) \<noteq> []"
    by (simp add: f applied_context_def)
  have k: "length (key_points (template_for frepr a strat tf performance)) = 4"
    and s: "length (improvement_suggestions (template_for frepr a strat tf performance)) = 3"
    using template_for_form [of frepr a strat tf performance] by simp_all
  show ?thesis using z g ne k s by (simp add: feedback_negative_zero)
qed

theorem C10_missing_roi_witness:
  "(Map.empty :: string \<rightharpoonup> pyval) ''roi'' = None
   \<and> get_template_feedback (\<lambda>x. ''0.0'') ''BTC'' ''hodl'' 30 Map.empty
       = Inr \<lparr> feedback = feedback (template_for (\<lambda>x. ''0.0'') ''BTC'' ''hodl'' 30 Map.empty)
                     @ '' The strategy resulted in a negative ROI of 0%. This provides a ''
                     @ ''valuable learning opportunity to understand what factors ''
                     @ ''contributed to the underperformance.'',
               key_points = key_points (template_for (\<lambda>x. ''0.0'') ''BTC'' ''hodl'' 30 Map.empty),
               improvement_suggestions =
                 improvement_suggestions (template_for (\<lambda>x. ''0.0'') ''BTC'' ''hodl'' 30 Map.empty) \<rparr>"
proof -
  have h: "(Map.empty :: string \<rightharpoonup> pyval) ''roi'' = None" by simp
  show ?thesis
    using h C10_missing_roi [OF h, of "\<lambda>x. ''0.0''" "''BTC''" "''hodl''" 30] by blast
qed

end
